theory Spec2Isabelle
  imports Main
begin

section \<open>JavaScript values\<close>

text \<open>
  Configuration documents, rule options and result details are JSON values. An object is
  an association list of its own properties (JavaScript keeps one binding per key, so a
  lookup reads the first binding of a key). Only whether a number is zero is ever observed
  by the code below, so numbers are integers.
\<close>

datatype json =
    JNull
  | JBool bool
  | JNum int
  | JStr string
  | JArr "json list"
  | JObj "(string \<times> json) list"

text \<open>
  Property access \<^verbatim>\<open>o.name\<close> on a JSON value (undefined is \<open>None\<close>), assignment
  \<^verbatim>\<open>o.name = v\<close> on an object's properties, truthiness and \<^verbatim>\<open>typeof\<close>.
\<close>

definition js_get :: "json \<Rightarrow> string \<Rightarrow> json option" where
  "js_get j name = (case j of JObj fs \<Rightarrow> map_of fs name | _ \<Rightarrow> None)"

fun set_prop :: "string \<Rightarrow> json \<Rightarrow> (string \<times> json) list \<Rightarrow> (string \<times> json) list" where
  "set_prop name v [] = [(name, v)]"
| "set_prop name v (kv # fs) =
     (if fst kv = name then (name, v) # fs else kv # set_prop name v fs)"

definition js_truthy :: "json option \<Rightarrow> bool" where
  "js_truthy j =
     (case j of
        None \<Rightarrow> False
      | Some JNull \<Rightarrow> False
      | Some (JBool b) \<Rightarrow> b
      | Some (JNum n) \<Rightarrow> n \<noteq> 0
      | Some (JStr s) \<Rightarrow> s \<noteq> []
      | Some (JArr xs) \<Rightarrow> True
      | Some (JObj fs) \<Rightarrow> True)"

definition js_typeof :: "json \<Rightarrow> string" where
  "js_typeof j =
     (case j of
        JNull \<Rightarrow> ''object''
      | JBool b \<Rightarrow> ''boolean''
      | JNum n \<Rightarrow> ''number''
      | JStr s \<Rightarrow> ''string''
      | JArr xs \<Rightarrow> ''object''
      | JObj fs \<Rightarrow> ''object'')"

text \<open>
  The members every object inherits from \<^verbatim>\<open>Object.prototype\<close>: a lookup
  \<^verbatim>\<open>table[name]\<close> on an object literal finds them when the literal has no key of
  that name. Calling one as a plain function of one argument returns a truthy value for
  \<^verbatim>\<open>constructor\<close> (the argument as an object) and \<^verbatim>\<open>toString\<close> (a string);
  it throws a \<^verbatim>\<open>TypeError\<close> for the others (\<^verbatim>\<open>__proto__\<close> is not a
  function, \<^verbatim>\<open>isPrototypeOf\<close> returns false for a value that is no object and
  leaves no error list to read, the rest need an object as their receiver).
\<close>

datatype js_error = TypeError

definition object_prototype_names :: "string list" where
  "object_prototype_names =
     [''constructor'', ''__proto__'', ''hasOwnProperty'', ''isPrototypeOf'',
      ''propertyIsEnumerable'', ''toLocaleString'', ''toString'', ''valueOf'',
      ''__defineGetter__'', ''__defineSetter__'', ''__lookupGetter__'', ''__lookupSetter__'']"

section \<open>Structured errors (lib/errors.js)\<close>

text \<open>
  An error object of the schema backend, with the fields \<^verbatim>\<open>parseAJVErrors\<close> reads:
  \<^verbatim>\<open>instancePath\<close>, \<^verbatim>\<open>message\<close>, \<^verbatim>\<open>keyword\<close>, \<^verbatim>\<open>data\<close>,
  \<^verbatim>\<open>params.missingProperty\<close>, and of \<^verbatim>\<open>schema\<close> the members it reads. A member
  that is only printed into a text is kept as the text JavaScript prints for it. The
  keyword of an error is the name of a schema keyword; no schema keyword has the name of
  a member of \<^verbatim>\<open>Object.prototype\<close>.
\<close>

record ajv_schema =
  sch_type :: "string option"
  sch_enum :: "string list option"
  sch_pattern :: "string option"
  sch_minimum :: "string option"
  sch_maximum :: "string option"
  sch_minLength :: "string option"
  sch_maxLength :: "string option"

record ajv_error =
  instancePath :: "string option"
  message :: "string option"
  keyword :: string
  schema :: "ajv_schema option"
  data :: "json option"
  missingProperty :: "string option"

record validation_error =
  e_path :: string
  e_message :: string
  e_severity :: string
  e_expected :: "string option"
  e_actual :: "json option"
  e_keyword :: "string option"
  e_fix :: "string option"

text \<open>\<^verbatim>\<open>severityMap[keyword] || 'warn'\<close>\<close>

definition severityMap :: "(string \<times> string) list" where
  "severityMap =
     [(''required'', ''critical''), (''type'', ''error''), (''enum'', ''error''),
      (''pattern'', ''warn''), (''format'', ''warn''), (''minimum'', ''warn''),
      (''maximum'', ''warn''), (''minLength'', ''warn''), (''maxLength'', ''warn'')]"

definition getSeverityFromKeyword :: "string \<Rightarrow> string" where
  "getSeverityFromKeyword kw = (case map_of severityMap kw of Some s \<Rightarrow> s | None \<Rightarrow> ''warn'')"

text \<open>
  A template literal prints an undefined value as \<^verbatim>\<open>undefined\<close>; \<^verbatim>\<open>join\<close> puts
  the separator between the elements.
\<close>

definition interpolate :: "string option \<Rightarrow> string" where
  "interpolate t = (case t of None \<Rightarrow> ''undefined'' | Some s \<Rightarrow> s)"

fun join :: "string \<Rightarrow> string list \<Rightarrow> string" where
  "join sep [] = []"
| "join sep [x] = x"
| "join sep (x # y # ys) = x @ sep @ join sep (y # ys)"

definition schema_member :: "ajv_error \<Rightarrow> (ajv_schema \<Rightarrow> 'a option) \<Rightarrow> 'a option" where
  "schema_member err sel = (case schema err of None \<Rightarrow> None | Some sch \<Rightarrow> sel sch)"

definition generateFixFromError :: "ajv_error \<Rightarrow> string option" where
  "generateFixFromError err =
     map_of
       [(''required'', ''Add missing field: '' @ interpolate (missingProperty err)),
        (''pattern'', ''Value must match pattern: '' @ interpolate (schema_member err sch_pattern)),
        (''enum'', ''Value must be one of: '' @
            interpolate (map_option (join '', '') (schema_member err sch_enum))),
        (''type'', ''Change type to: '' @ interpolate (schema_member err sch_type)),
        (''minimum'', ''Value must be >= '' @ interpolate (schema_member err sch_minimum)),
        (''maximum'', ''Value must be <= '' @ interpolate (schema_member err sch_maximum)),
        (''minLength'', ''Length must be >= '' @ interpolate (schema_member err sch_minLength)),
        (''maxLength'', ''Length must be <= '' @ interpolate (schema_member err sch_maxLength))]
       (keyword err)"

text \<open>
  \<^verbatim>\<open>error.instancePath || 'root'\<close>, \<^verbatim>\<open>error.message || 'Validation failed'\<close> and
  \<^verbatim>\<open>error.schema?.type || error.schema?.enum?.join('|')\<close>: an empty string is falsy.
\<close>

definition or_else :: "string option \<Rightarrow> string \<Rightarrow> string" where
  "or_else t d = (case t of None \<Rightarrow> d | Some s \<Rightarrow> if s = [] then d else s)"

definition parseAJVError :: "ajv_error \<Rightarrow> validation_error" where
  "parseAJVError err =
     \<lparr> e_path = or_else (instancePath err) ''root'',
       e_message = or_else (message err) ''Validation failed'',
       e_severity = getSeverityFromKeyword (keyword err),
       e_expected =
         (case schema_member err sch_type of
            None \<Rightarrow> map_option (join ''|'') (schema_member err sch_enum)
          | Some t \<Rightarrow> if t = [] then map_option (join ''|'') (schema_member err sch_enum)
                      else Some t),
       e_actual = data err,
       e_keyword = Some (keyword err),
       e_fix = generateFixFromError err \<rparr>"

definition parseAJVErrors :: "ajv_error list \<Rightarrow> validation_error list" where
  "parseAJVErrors ajvErrors = map parseAJVError ajvErrors"



section \<open>The configuration validator (lib/config-validator)\<close>

record validation_result =
  vr_valid :: bool
  vr_errors :: "validation_error list"
  vr_warnings :: "validation_error list"
  vr_fixes :: "string list"

text \<open>
  A compiled validator of the schema backend (\<^verbatim>\<open>ajv.compile(schema)\<close>) is a parameter
  of the validator: applied to a document it reports the violations it found (none: the
  document is valid) and leaves the document as its options make it (the constructor
  passes \<^verbatim>\<open>coerceTypes\<close>, true unless switched off, and \<^verbatim>\<open>useDefaults\<close>, with
  which the backend writes into the document it validates). \<open>None\<close> for the three
  validators is the validator built without the backend.
\<close>

type_synonym compiled = "json \<Rightarrow> ajv_error list \<times> json"

record validators =
  configValidate :: compiled
  settingsValidate :: compiled
  qualityGateValidate :: compiled

text \<open>
  \<^verbatim>\<open>validators[schemaName] || null\<close> on the object literal with the three keys. A name
  that is none of the three but a member every object inherits is found on the
  prototype, and \<^verbatim>\<open>validate\<close> goes on to call that member as the validator.
\<close>

datatype lookup = Own compiled | InheritedReturns | InheritedThrows | Absent

definition getValidator :: "validators \<Rightarrow> string \<Rightarrow> lookup" where
  "getValidator vs schemaName =
     (if schemaName = ''config'' then Own (configValidate vs)
      else if schemaName = ''settings'' then Own (settingsValidate vs)
      else if schemaName = ''quality-gate'' then Own (qualityGateValidate vs)
      else if schemaName = ''constructor'' \<or> schemaName = ''toString'' then InheritedReturns
      else if schemaName \<in> set object_prototype_names then InheritedThrows
      else Absent)"

text \<open>\<^verbatim>\<open>/^\d+\.\d+\.\d+/.test(s)\<close>: digits, a dot, digits, a dot, digits, from the start.\<close>

definition is_digit :: "char \<Rightarrow> bool" where
  "is_digit c = (c \<in> set ''0123456789'')"

definition after_digits :: "string \<Rightarrow> string option" where
  "after_digits s = (if takeWhile is_digit s = [] then None else Some (dropWhile is_digit s))"

definition after_dot :: "string \<Rightarrow> string option" where
  "after_dot s = (case s of [] \<Rightarrow> None | c # cs \<Rightarrow> if c = CHR ''.'' then Some cs else None)"

definition version_prefix :: "string \<Rightarrow> bool" where
  "version_prefix s =
     (case Option.bind (Option.bind (Option.bind (Option.bind (after_digits s) after_dot)
              after_digits) after_dot) after_digits of
        None \<Rightarrow> False
      | Some rest \<Rightarrow> True)"

definition basicValidate :: "json \<Rightarrow> string \<Rightarrow> validation_result" where
  "basicValidate cfg schemaName =
     (if js_truthy (Some cfg) \<and> js_typeof cfg = ''object''
      then
        (if schemaName = ''config''
         then
           (if js_truthy (js_get cfg ''version'')
            then
              (case js_get cfg ''version'' of
                 Some (JStr v) \<Rightarrow>
                   if version_prefix v
                   then \<lparr> vr_valid = True, vr_errors = [], vr_warnings = [], vr_fixes = [] \<rparr>
                   else \<lparr> vr_valid = False,
                          vr_errors =
                            [\<lparr> e_path = ''version'', e_message = ''Invalid version format'',
                               e_severity = ''error'', e_expected = Some ''X.Y.Z'',
                               e_actual = Some (JStr v), e_keyword = None,
                               e_fix = Some ''Use semantic version format (e.g., 1.0.0)'' \<rparr>],
                          vr_warnings = [], vr_fixes = [] \<rparr>
               | _ \<Rightarrow> \<lparr> vr_valid = True, vr_errors = [], vr_warnings = [], vr_fixes = [] \<rparr>)
            else
              \<lparr> vr_valid = False,
                vr_errors =
                  [\<lparr> e_path = ''version'', e_message = ''Missing required field: version'',
                     e_severity = ''critical'', e_expected = None, e_actual = None,
                     e_keyword = None,
                     e_fix = Some (''Add '' @ [CHR 0x22] @ ''version'' @ [CHR 0x22] @ '': '' @
                                   [CHR 0x22] @ ''1.0.0'' @ [CHR 0x22] @ '' to config'') \<rparr>],
                vr_warnings = [], vr_fixes = [] \<rparr>)
         else \<lparr> vr_valid = True, vr_errors = [], vr_warnings = [], vr_fixes = [] \<rparr>)
      else
        \<lparr> vr_valid = False,
          vr_errors =
            [\<lparr> e_path = ''root'', e_message = ''Configuration must be an object'',
               e_severity = ''critical'', e_expected = None, e_actual = None,
               e_keyword = None, e_fix = Some ''Ensure config is valid JSON object'' \<rparr>],
          vr_warnings = [], vr_fixes = [] \<rparr>)"

definition unknown_schema :: "string \<Rightarrow> validation_result" where
  "unknown_schema schemaName =
     \<lparr> vr_valid = False,
       vr_errors =
         [\<lparr> e_path = ''schema'', e_message = ''Unknown schema: '' @ schemaName,
            e_severity = ''critical'', e_expected = None, e_actual = None, e_keyword = None,
            e_fix = Some ''Use valid schema name: config, settings, quality-gate'' \<rparr>],
       vr_warnings = [], vr_fixes = [] \<rparr>"

definition is_warning :: "validation_error \<Rightarrow> bool" where
  "is_warning e = (e_severity e = ''warn'' \<or> e_severity e = ''info'')"

definition process_errors :: "ajv_error list \<Rightarrow> validation_result" where
  "process_errors ajvErrors =
     (let processedErrors = parseAJVErrors ajvErrors
      in \<lparr> vr_valid = False,
           vr_errors = filter (\<lambda>e. \<not> is_warning e) processedErrors,
           vr_warnings = filter is_warning processedErrors,
           vr_fixes = List.map_filter e_fix processedErrors \<rparr>)"

text \<open>
  \<^verbatim>\<open>validate(config, schemaName = 'config')\<close>: the result, and the document as the
  call leaves it; or the error the call throws. An inherited member that returns a
  truthy value makes the document valid; one that throws makes \<^verbatim>\<open>validate\<close> throw.
\<close>

definition validate ::
  "validators option \<Rightarrow> json \<Rightarrow> string option \<Rightarrow> js_error + (validation_result \<times> json)" where
  "validate ajv cfg name =
     (let schemaName = (case name of None \<Rightarrow> ''config'' | Some n \<Rightarrow> n)
      in case ajv of
           None \<Rightarrow> Inr (basicValidate cfg schemaName, cfg)
         | Some vs \<Rightarrow>
             (case getValidator vs schemaName of
                Absent \<Rightarrow> Inr (unknown_schema schemaName, cfg)
              | InheritedThrows \<Rightarrow> Inl TypeError
              | InheritedReturns \<Rightarrow>
                  Inr (\<lparr> vr_valid = True, vr_errors = [], vr_warnings = [], vr_fixes = [] \<rparr>, cfg)
              | Own validator \<Rightarrow>
                  (case validator cfg of
                     (ajvErrors, cfg') \<Rightarrow>
                       if ajvErrors = []
                       then Inr (\<lparr> vr_valid = True, vr_errors = [], vr_warnings = [],
                                   vr_fixes = [] \<rparr>, cfg')
                       else Inr (process_errors ajvErrors, cfg'))))"



section \<open>The schemas and the schema backend\<close>

subsection \<open>The schemas (lib/config-schema.js)\<close>

text \<open>
  The three schemas, down to the keywords of their top level and the \<^verbatim>\<open>type\<close>,
  \<^verbatim>\<open>enum\<close> and \<^verbatim>\<open>pattern\<close> of each top-level property. What a schema says
  below an object- or array-typed property (required members, nested properties, items) is
  left to the backend's validation of that property.
\<close>

datatype prop_type = TBoolean | TString | TObject | TArray

record prop_schema =
  p_type :: prop_type
  p_enum :: "string list option"
  p_pattern :: "string option"

record top_schema =
  t_id :: string
  t_required :: "string list"
  t_properties :: "(string \<times> prop_schema) list"
  t_patternProperties :: "(string \<times> prop_schema) list"
  t_additionalProperties :: bool

definition of_type :: "prop_type \<Rightarrow> prop_schema" where
  "of_type ty = \<lparr> p_type = ty, p_enum = None, p_pattern = None \<rparr>"

definition version_pattern :: string where
  "version_pattern = ''^'' @ [CHR 0x5C] @ ''d+'' @ [CHR 0x5C] @ ''.'' @ [CHR 0x5C] @ ''d+'' @
     [CHR 0x5C] @ ''.'' @ [CHR 0x5C] @ ''d+(-[a-zA-Z0-9.]+)?$''"

definition hook_event_pattern :: string where
  "hook_event_pattern = ''^(UserPromptSubmit|PreToolUse|PostToolUse|AgentStop|SessionEnd)$''"

definition CONFIG_SCHEMA :: top_schema where
  "CONFIG_SCHEMA =
     \<lparr> t_id = ''https://sumulige-claude.com/schemas/config.json'',
       t_required = [''version''],
       t_properties =
         [(''version'', \<lparr> p_type = TString, p_enum = None, p_pattern = Some version_pattern \<rparr>),
          (''model'', \<lparr> p_type = TString,
                        p_enum = Some [''claude-opus-4.5'', ''claude-opus-4-20250514'',
                                       ''claude-opus-4-5-20251101'', ''claude-sonnet-4.5'',
                                       ''claude-sonnet-4-20250514'', ''claude-sonnet-4-5-20251101'',
                                       ''claude-haiku-4.5''],
                        p_pattern = None \<rparr>),
          (''agents'', of_type TObject),
          (''skills'', of_type TArray),
          (''hooks'', of_type TObject),
          (''thinkingLens'', of_type TObject),
          (''qualityGate'', of_type TObject),
          (''marketplace'', of_type TObject)],
       t_patternProperties = [],
       t_additionalProperties = True \<rparr>"

definition SETTINGS_SCHEMA :: top_schema where
  "SETTINGS_SCHEMA =
     \<lparr> t_id = ''https://sumulige-claude.com/schemas/settings.json'',
       t_required = [],
       t_properties = [],
       t_patternProperties = [(hook_event_pattern, of_type TArray)],
       t_additionalProperties = True \<rparr>"

definition QUALITY_GATE_SCHEMA :: top_schema where
  "QUALITY_GATE_SCHEMA =
     \<lparr> t_id = ''https://sumulige-claude.com/schemas/quality-gate.json'',
       t_required = [],
       t_properties =
         [(''enabled'', of_type TBoolean),
          (''severity'', \<lparr> p_type = TString,
                           p_enum = Some [''info'', ''warn'', ''error'', ''critical''],
                           p_pattern = None \<rparr>),
          (''rules'', of_type TArray),
          (''gates'', of_type TObject),
          (''reporting'', of_type TObject)],
       t_patternProperties = [],
       t_additionalProperties = True \<rparr>"

definition getSchema :: "string \<Rightarrow> top_schema option" where
  "getSchema name =
     map_of [(''config'', CONFIG_SCHEMA), (''settings'', SETTINGS_SCHEMA),
             (''quality-gate'', QUALITY_GATE_SCHEMA)] name"

subsection \<open>The backend\<close>

text \<open>
  Modelled from the spec: the schema-validation backend (the AJV library that
  lib/config-validator loads when it is installed) is not among the source files. The
  spec has the validator compile each schema once and map the backend's errors by
  keyword, and lists the constructs the schemas use: required, type, enum, pattern and
  nested object and array validation. The model is the backend as the validator's
  constructor sets it up by default (all errors collected, types coerced, no defaults
  filled in, additional properties kept) on the top level of a schema:
  \<^item> a document that is not an object violates \<^verbatim>\<open>type\<close> at the root;
  \<^item> every required property that is missing is a \<^verbatim>\<open>required\<close> violation at the
    root (instance path empty), as in the repository's test of \<^verbatim>\<open>parseAJVErrors\<close>;
  \<^item> every property of the document is validated against the schema of its name under
    \<^verbatim>\<open>properties\<close> and against every schema under \<^verbatim>\<open>patternProperties\<close> whose
    pattern its name matches; a property under neither is checked only by
    \<^verbatim>\<open>additionalProperties\<close>;
  \<^item> a scalar of another type than the schema's is coerced in place where the backend's
    coercion rules allow it (to boolean: the strings true and false, the numbers 1 and 0,
    null; to string: numbers, booleans, null), and is a \<^verbatim>\<open>type\<close> violation otherwise;
  \<^item> errors are listed property by property of the document.
  Regular expressions and the validation below an object- or array-typed property are
  the engine's, a parameter.
\<close>

record ajv_engine =
  rx_test :: "string \<Rightarrow> string \<Rightarrow> bool"
  nested :: "string \<Rightarrow> string \<Rightarrow> json \<Rightarrow> ajv_error list \<times> json"

definition digit_of :: "nat \<Rightarrow> char" where
  "digit_of d = char_of (48 + d)"

function show_nat :: "nat \<Rightarrow> string" where
  "show_nat n = (if n < 10 then [digit_of n] else show_nat (n div 10) @ [digit_of (n mod 10)])"
  by pat_completeness auto
termination
  by (relation "measure id") auto

definition show_int :: "int \<Rightarrow> string" where
  "show_int i = (if i < 0 then CHR ''-'' # show_nat (nat (- i)) else show_nat (nat i))"

fun coerce :: "prop_type \<Rightarrow> json \<Rightarrow> json option" where
  "coerce TBoolean (JBool b) = Some (JBool b)"
| "coerce TBoolean (JStr s) =
     (if s = ''true'' then Some (JBool True)
      else if s = ''false'' then Some (JBool False) else None)"
| "coerce TBoolean (JNum n) =
     (if n = 1 then Some (JBool True) else if n = 0 then Some (JBool False) else None)"
| "coerce TBoolean JNull = Some (JBool False)"
| "coerce TBoolean j = None"
| "coerce TString (JStr s) = Some (JStr s)"
| "coerce TString (JNum n) = Some (JStr (show_int n))"
| "coerce TString (JBool b) = Some (JStr (if b then ''true'' else ''false''))"
| "coerce TString JNull = Some (JStr [])"
| "coerce TString j = None"
| "coerce TObject (JObj fs) = Some (JObj fs)"
| "coerce TObject j = None"
| "coerce TArray (JArr xs) = Some (JArr xs)"
| "coerce TArray j = None"

definition type_name :: "prop_type \<Rightarrow> string" where
  "type_name ty =
     (case ty of TBoolean \<Rightarrow> ''boolean'' | TString \<Rightarrow> ''string''
      | TObject \<Rightarrow> ''object'' | TArray \<Rightarrow> ''array'')"

definition violation :: "string \<Rightarrow> string \<Rightarrow> string \<Rightarrow> json \<Rightarrow> ajv_error" where
  "violation path kw msg j =
     \<lparr> instancePath = Some path, message = Some msg, keyword = kw, schema = None,
       data = Some j, missingProperty = None \<rparr>"

definition missing_property :: "string \<Rightarrow> json option \<Rightarrow> ajv_error" where
  "missing_property name j =
     \<lparr> instancePath = Some [], message = Some (''must have required property '' @ [CHR 0x27] @ name @ [CHR 0x27]),
       keyword = ''required'', schema = None, data = j, missingProperty = Some name \<rparr>"

definition pointer_token :: "string \<Rightarrow> string" where
  "pointer_token name =
     concat (map (\<lambda>c. if c = CHR ''~'' then ''~0'' else if c = CHR ''/'' then ''~1'' else [c]) name)"

definition check_prop ::
  "ajv_engine \<Rightarrow> string \<Rightarrow> string \<Rightarrow> string \<Rightarrow> prop_schema \<Rightarrow> json \<Rightarrow> ajv_error list \<times> json" where
  "check_prop eng sid key path ps j =
     (case coerce (p_type ps) j of
        None \<Rightarrow> ([violation path ''type'' (''must be '' @ type_name (p_type ps)) j], j)
      | Some (JStr s) \<Rightarrow>
          ((case p_enum ps of
              None \<Rightarrow> []
            | Some allowed \<Rightarrow>
                if s \<in> set allowed then []
                else [violation path ''enum'' ''must be equal to one of the allowed values'' (JStr s)]) @
           (case p_pattern ps of
              None \<Rightarrow> []
            | Some pat \<Rightarrow>
                if rx_test eng pat s then []
                else [violation path ''pattern''
                        (''must match pattern '' @ [CHR 0x22] @ pat @ [CHR 0x22]) (JStr s)]),
           JStr s)
      | Some (JObj fs) \<Rightarrow> nested eng sid key (JObj fs)
      | Some (JArr xs) \<Rightarrow> nested eng sid key (JArr xs)
      | Some j' \<Rightarrow> ([], j'))"

definition applicable :: "ajv_engine \<Rightarrow> top_schema \<Rightarrow> string \<Rightarrow> (string \<times> prop_schema) list" where
  "applicable eng S name =
     filter (\<lambda>p. fst p = name) (t_properties S) @
     filter (\<lambda>p. rx_test eng (fst p) name) (t_patternProperties S)"

definition check_entry ::
  "ajv_engine \<Rightarrow> top_schema \<Rightarrow> string \<times> json \<Rightarrow> ajv_error list \<times> (string \<times> json)" where
  "check_entry eng S kv =
     (case foldl (\<lambda>acc p.
                    case check_prop eng (t_id S) (fst p) (''/'' @ pointer_token (fst kv)) (snd p) (snd acc) of
                      (errs, j) \<Rightarrow> (fst acc @ errs, j))
                 ([], snd kv) (applicable eng S (fst kv)) of
        (errs, j) \<Rightarrow> (errs, (fst kv, j)))"

definition ajv_compile :: "ajv_engine \<Rightarrow> top_schema \<Rightarrow> compiled" where
  "ajv_compile eng S doc =
     (case doc of
        JObj fs \<Rightarrow>
          (map (\<lambda>name. missing_property name (Some doc))
               (filter (\<lambda>name. map_of fs name = None) (t_required S)) @
           concat (map (\<lambda>kv. fst (check_entry eng S kv)) fs) @
           (if t_additionalProperties S then []
            else map (\<lambda>kv. violation [] ''additionalProperties''
                              ''must NOT have additional properties'' doc)
                     (filter (\<lambda>kv. applicable eng S (fst kv) = []) fs)),
           JObj (map (\<lambda>kv. snd (check_entry eng S kv)) fs))
      | _ \<Rightarrow> ([violation [] ''type'' ''must be object'' doc], doc))"

text \<open>The constructor: \<^verbatim>\<open>this.configValidate = this.ajv.compile(CONFIG_SCHEMA)\<close> and so on.\<close>

definition ajv_validators :: "ajv_engine \<Rightarrow> validators" where
  "ajv_validators eng =
     \<lparr> configValidate = ajv_compile eng CONFIG_SCHEMA,
       settingsValidate = ajv_compile eng SETTINGS_SCHEMA,
       qualityGateValidate = ajv_compile eng QUALITY_GATE_SCHEMA \<rparr>"

text \<open>A name is declared by a schema when a subschema applies to a property of that name.\<close>

definition declares :: "ajv_engine \<Rightarrow> top_schema \<Rightarrow> string \<Rightarrow> bool" where
  "declares eng S name =
     (name \<in> set (map fst (t_properties S)) \<or>
      list_ex (\<lambda>p. rx_test eng (fst p) name) (t_patternProperties S))"

section \<open>The rule registry (lib/quality-rules)\<close>

text \<open>
  What the \<^verbatim>\<open>try\<close> block around a rule's \<^verbatim>\<open>check(filePath, config)\<close> ends
  with: the object the check function returns, or the value it throws (or rejects its
  promise with). A thrown value is \<^verbatim>\<open>null\<close> or \<^verbatim>\<open>undefined\<close>, or a value
  with members, of which the gate reads \<^verbatim>\<open>message\<close>: the text a template prints
  for it, \<open>None\<close> when the value has no such member. Fields of the returned object
  that the gate reads through \<^verbatim>\<open>||\<close> or \<^verbatim>\<open>!\<close> are kept as their truth value.
\<close>

record check_outcome =
  co_pass :: bool
  co_message :: string
  co_skip :: bool
  co_autoFix :: bool
  co_fix :: "string option"
  co_details :: "json option"

datatype thrown = ThrownNullish | ThrownValue "string option"

datatype check_return = Returns check_outcome | Throws thrown

record quality_rule =
  rule_id :: string
  rule_name :: string
  rule_severity :: string
  rule_enabled :: bool
  rule_config :: "string \<rightharpoonup> json"
  rule_category :: "string option"
  rule_fix :: "string option"
  rule_check :: "string \<Rightarrow> (string \<rightharpoonup> json) \<Rightarrow> check_return"

text \<open>
  Modelled from the spec: the registry class itself (lib/quality-rules) is not among the
  source files; only its callers and its tests are. The spec describes it as an in-memory
  catalog keyed by rule id, whose \<^verbatim>\<open>get(id)\<close> returns the rule object or null and whose
  \<^verbatim>\<open>getAll(filter)\<close> supports combinable filters on enabled, severity and category.
  The gate mutates the rule objects that \<^verbatim>\<open>get\<close> returns and reads the objects that
  \<^verbatim>\<open>getAll\<close> returned earlier, so the registry is a store: the list holds the rule
  objects in registration order (one per id) and a reference to a rule object is its
  position in the list.
\<close>

record rule_filter =
  flt_enabled :: "bool option"
  flt_severity :: "string option"
  flt_category :: "string option"

definition registry_get :: "quality_rule list \<Rightarrow> string \<Rightarrow> nat option" where
  "registry_get reg rid =
     (case filter (\<lambda>i. rule_id (reg ! i) = rid) [0..<length reg] of
        [] \<Rightarrow> None
      | i # _ \<Rightarrow> Some i)"

definition rule_matches :: "rule_filter \<Rightarrow> quality_rule \<Rightarrow> bool" where
  "rule_matches flt r =
     ((case flt_enabled flt of None \<Rightarrow> True | Some b \<Rightarrow> rule_enabled r = b) \<and>
      (case flt_severity flt of None \<Rightarrow> True | Some s \<Rightarrow> rule_severity r = s) \<and>
      (case flt_category flt of None \<Rightarrow> True | Some c \<Rightarrow> rule_category r = Some c))"

definition registry_getAll :: "quality_rule list \<Rightarrow> rule_filter \<Rightarrow> nat list" where
  "registry_getAll reg flt = filter (\<lambda>i. rule_matches flt (reg ! i)) [0..<length reg]"

section \<open>The quality gate (lib/quality-gate)\<close>

subsection \<open>Data\<close>

record rule_result =
  r_file :: string
  r_rule :: string
  r_ruleName :: string
  r_severity :: string
  r_message :: string
  r_pass :: bool
  r_skip :: bool
  r_fix :: "string option"
  r_autoFix :: bool
  r_details :: "json option"

record gate_summary =
  s_total :: nat
  s_critical :: nat
  s_error :: nat
  s_warn :: nat
  s_info :: nat
  s_filesChecked :: nat
  s_rulesRun :: nat
  s_fixed :: "nat option"

record check_result =
  passed :: bool
  results :: "rule_result list"
  summary :: gate_summary

text \<open>One entry of \<^verbatim>\<open>config.rules\<close>; a field that is absent is \<open>None\<close>.\<close>

record rule_override =
  ov_id :: string
  ov_enabled :: "bool option"
  ov_severity :: "string option"
  ov_config :: "(string \<rightharpoonup> json) option"

record gate_config =
  cfg_severity :: "string option"
  cfg_rules :: "rule_override list"

record quality_gate =
  projectDir :: string
  config :: gate_config
  reporters :: "(check_result \<Rightarrow> string list) list"

record check_options =
  opt_files :: "string list option"
  opt_severity :: "string option"
  opt_rules :: "quality_rule list option"
  opt_fix :: bool

text \<open>
  The world outside the gate: the process-wide registry, the file system as the gate
  reads it (\<^verbatim>\<open>existsSync\<close>, \<^verbatim>\<open>readFileSync\<close> with \<open>None\<close> when it throws
  and the text of the file as its list of UTF-16 code units otherwise,
  whether \<^verbatim>\<open>writeFileSync\<close> succeeds, \<^verbatim>\<open>readdirSync\<close> with \<open>None\<close> when it
  throws), Node's \<^verbatim>\<open>path.join\<close> and \<^verbatim>\<open>path.extname\<close>, the lines printed by the
  reporters, and the log of the (file, rule id) pairs for which a rule's check function
  was invoked.
\<close>

datatype dir_entry = DirEntry string | FileEntry string | OtherEntry string

record world =
  w_registry :: "quality_rule list"
  w_exists :: "string \<Rightarrow> bool"
  w_read :: "string \<Rightarrow> nat list option"
  w_writable :: "string \<Rightarrow> bool"
  w_readdir :: "string \<Rightarrow> dir_entry list option"
  w_join :: "string \<Rightarrow> string \<Rightarrow> string"
  w_extname :: "string \<Rightarrow> string"
  w_console :: "string list"
  w_invoked :: "(string \<times> string) list"

subsection \<open>Severity levels and blocking issues\<close>

text \<open>
  \<^verbatim>\<open>const levels = { info: 0, warn: 1, error: 2, critical: 3 };
  return levels[severity] || 1;\<close>
  The operator \<^verbatim>\<open>||\<close> takes its right operand when the left one is undefined or 0.
  For the name of an inherited member the lookup finds the member, which is truthy and
  no number (\<open>None\<close>); \<^verbatim>\<open>>=\<close> is false when a side is no number.
\<close>

definition levels :: "(string \<times> nat) list" where
  "levels = [(''info'', 0), (''warn'', 1), (''error'', 2), (''critical'', 3)]"

definition severityLevel :: "string \<Rightarrow> nat option" where
  "severityLevel sev =
     (case map_of levels sev of
        Some n \<Rightarrow> Some (if n = 0 then 1 else n)
      | None \<Rightarrow> if sev \<in> set object_prototype_names then None else Some 1)"

definition at_least :: "nat option \<Rightarrow> nat option \<Rightarrow> bool" where
  "at_least a b =
     (case a of
        None \<Rightarrow> False
      | Some x \<Rightarrow> (case b of None \<Rightarrow> False | Some y \<Rightarrow> y \<le> x))"

definition hasBlockingIssues :: "rule_result list \<Rightarrow> nat option \<Rightarrow> bool" where
  "hasBlockingIssues rs minSeverity =
     list_ex (\<lambda>r. (\<not> r_pass r) \<and> (\<not> r_skip r) \<and>
                  at_least (severityLevel (r_severity r)) minSeverity) rs"

subsection \<open>Checking one file\<close>

definition file_not_found :: "string \<Rightarrow> rule_result" where
  "file_not_found filePath =
     \<lparr> r_file = filePath, r_rule = ''file-exists'', r_ruleName = ''File Exists'',
       r_severity = ''error'', r_message = ''File not found'', r_pass = False,
       r_skip = False, r_fix = None, r_autoFix = False, r_details = None \<rparr>"

text \<open>
  The body of the loop over the rules, for a rule that is enabled: the \<^verbatim>\<open>try\<close>
  and its \<^verbatim>\<open>catch\<close>. The handler reads \<^verbatim>\<open>e.message\<close>; when the caught value
  is \<^verbatim>\<open>null\<close> or \<^verbatim>\<open>undefined\<close> that read throws a \<^verbatim>\<open>TypeError\<close>, which
  nothing catches.
\<close>

definition returned_row :: "string \<Rightarrow> quality_rule \<Rightarrow> check_outcome \<Rightarrow> rule_result" where
  "returned_row filePath rl res =
     \<lparr> r_file = filePath, r_rule = rule_id rl, r_ruleName = rule_name rl,
       r_severity = rule_severity rl, r_message = co_message res, r_pass = co_pass res,
       r_skip = co_skip res,
       r_fix = (case co_fix res of
                  None \<Rightarrow> rule_fix rl
                | Some f \<Rightarrow> if f = [] then rule_fix rl else Some f),
       r_autoFix = co_autoFix res, r_details = co_details res \<rparr>"

definition thrown_row :: "string \<Rightarrow> quality_rule \<Rightarrow> string option \<Rightarrow> rule_result" where
  "thrown_row filePath rl msg =
     \<lparr> r_file = filePath, r_rule = rule_id rl, r_ruleName = rule_name rl,
       r_severity = ''error'', r_message = ''Rule execution error: '' @ interpolate msg,
       r_pass = False, r_skip = False, r_fix = None, r_autoFix = False,
       r_details = None \<rparr>"

definition run_rule :: "string \<Rightarrow> quality_rule \<Rightarrow> js_error + rule_result" where
  "run_rule filePath rl =
     (case rule_check rl filePath (rule_config rl) of
        Returns res \<Rightarrow> Inr (returned_row filePath rl res)
      | Throws ThrownNullish \<Rightarrow> Inl TypeError
      | Throws (ThrownValue msg) \<Rightarrow> Inr (thrown_row filePath rl msg))"

text \<open>
  The loop over the rules: the rows pushed so far, or the error that ended the loop,
  and the (file, rule id) pairs for which the rule's check function was invoked, in
  order.
\<close>

fun checkRules ::
  "string \<Rightarrow> quality_rule list \<Rightarrow> (js_error + rule_result list) \<times> (string \<times> string) list" where
  "checkRules filePath [] = (Inr [], [])"
| "checkRules filePath (rl # rules) =
     (if rule_enabled rl
      then (case run_rule filePath rl of
              Inl e \<Rightarrow> (Inl e, [(filePath, rule_id rl)])
            | Inr r \<Rightarrow>
                (case checkRules filePath rules of
                   (Inl e, calls) \<Rightarrow> (Inl e, (filePath, rule_id rl) # calls)
                 | (Inr rs, calls) \<Rightarrow> (Inr (r # rs), (filePath, rule_id rl) # calls)))
      else checkRules filePath rules)"

text \<open>\<^verbatim>\<open>_checkFile\<close>.\<close>

definition checkFile ::
  "(string \<Rightarrow> bool) \<Rightarrow> string \<Rightarrow> quality_rule list \<Rightarrow>
     (js_error + rule_result list) \<times> (string \<times> string) list" where
  "checkFile ex filePath rules =
     (if ex filePath then checkRules filePath rules
      else (Inr [file_not_found filePath], []))"

text \<open>The loop of \<^verbatim>\<open>check\<close> over the files.\<close>

fun checkFiles ::
  "(string \<Rightarrow> bool) \<Rightarrow> quality_rule list \<Rightarrow> string list \<Rightarrow>
     (js_error + rule_result list) \<times> (string \<times> string) list" where
  "checkFiles ex rules [] = (Inr [], [])"
| "checkFiles ex rules (f # files) =
     (case checkFile ex f rules of
        (Inl e, calls) \<Rightarrow> (Inl e, calls)
      | (Inr fileResults, calls) \<Rightarrow>
          (case checkFiles ex rules files of
             (Inl e, calls') \<Rightarrow> (Inl e, calls @ calls')
           | (Inr rs, calls') \<Rightarrow> (Inr (fileResults @ rs), calls @ calls')))"

subsection \<open>Automatic fixes\<close>

text \<open>
  \<^verbatim>\<open>content.replace(/[ \t]+$/gm, '')\<close>: every run of spaces and tabs that ends at a
  line terminator (line feed, carriage return, U+2028, U+2029) or at the end of the text
  is removed. Read from the right, a blank is dropped exactly when what remains after it
  is empty or starts with a line terminator.
\<close>

definition is_blank :: "nat \<Rightarrow> bool" where
  "is_blank u = (u = 32 \<or> u = 9)"

definition is_line_end :: "nat \<Rightarrow> bool" where
  "is_line_end u = (u = 10 \<or> u = 13 \<or> u = 8232 \<or> u = 8233)"

definition strip_trailing :: "nat list \<Rightarrow> nat list" where
  "strip_trailing content =
     foldr (\<lambda>u acc. if is_blank u \<and> (case acc of [] \<Rightarrow> True | d # _ \<Rightarrow> is_line_end d)
                     then acc else u # acc) content []"

fun applyFixes :: "world \<Rightarrow> rule_result list \<Rightarrow> nat \<times> world" where
  "applyFixes w [] = (0, w)"
| "applyFixes w (r # rs) =
     (case w_read w (r_file r) of
        None \<Rightarrow> applyFixes w rs
      | Some content \<Rightarrow>
          (let fixed = (if r_rule r = ''no-trailing-whitespace''
                        then strip_trailing content else content)
           in if fixed = content then applyFixes w rs
              else if w_writable w (r_file r)
              then apfst Suc (applyFixes (w\<lparr> w_read := (w_read w)(r_file r := Some fixed) \<rparr>) rs)
              else applyFixes w rs))"

subsection \<open>The file set and the active rules\<close>

definition ignoreDirs :: "string list" where
  "ignoreDirs = [''node_modules'', ''.git'', ''dist'', ''build'', ''.next'',
                 ''coverage'', ''.nyc_output'', ''.cache'', ''vendor'']"

definition checkExts :: "string list" where
  "checkExts = [''.js'', ''.ts'', ''.jsx'', ''.tsx'', ''.cjs'', ''.mjs'',
                ''.json'', ''.md'', ''.py'', ''.go'', ''.rs'']"

text \<open>
  \<^verbatim>\<open>scanDir(dir, depth)\<close> returns at once when \<^verbatim>\<open>depth > 10\<close>; the first argument
  counts the levels that are left, 11 at the project directory.
\<close>

fun scanDir :: "nat \<Rightarrow> world \<Rightarrow> string \<Rightarrow> string list" where
  "scanDir 0 w dir = []"
| "scanDir (Suc n) w dir =
     (case w_readdir w dir of
        None \<Rightarrow> []
      | Some entries \<Rightarrow>
          concat (map (\<lambda>e. case e of
                         DirEntry name \<Rightarrow>
                           if name \<in> set ignoreDirs then []
                           else scanDir n w (w_join w dir name)
                       | FileEntry name \<Rightarrow>
                           if w_extname w name \<in> set checkExts then [w_join w dir name] else []
                       | OtherEntry name \<Rightarrow> []) entries))"

definition getProjectFiles :: "world \<Rightarrow> quality_gate \<Rightarrow> string list" where
  "getProjectFiles w g = scanDir 11 w (projectDir g)"

text \<open>
  \<^verbatim>\<open>_getActiveRules\<close>. The enabled rules are fetched first; then every override is
  written into the rule object that \<^verbatim>\<open>registry.get\<close> returns; then the rules fetched
  first are filtered by their enabled flag as it is now.
\<close>

definition apply_override :: "quality_rule list \<Rightarrow> rule_override \<Rightarrow> quality_rule list" where
  "apply_override reg ov =
     (case registry_get reg (ov_id ov) of
        None \<Rightarrow> reg
      | Some i \<Rightarrow>
          reg[i := (reg ! i)
            \<lparr> rule_severity :=
                (case ov_severity ov of
                   None \<Rightarrow> rule_severity (reg ! i)
                 | Some s \<Rightarrow> if s = [] then rule_severity (reg ! i) else s),
              rule_enabled :=
                (case ov_enabled ov of None \<Rightarrow> rule_enabled (reg ! i) | Some b \<Rightarrow> b),
              rule_config :=
                (case ov_config ov of
                   None \<Rightarrow> rule_config (reg ! i)
                 | Some c \<Rightarrow> rule_config (reg ! i) ++ c) \<rparr>])"

definition getActiveRules :: "quality_rule list \<Rightarrow> gate_config \<Rightarrow> quality_rule list \<times> quality_rule list" where
  "getActiveRules reg cfg =
     (let rules = registry_getAll reg \<lparr> flt_enabled = Some True, flt_severity = None, flt_category = None \<rparr>;
          reg' = foldl apply_override reg (cfg_rules cfg)
      in (filter rule_enabled (map (\<lambda>i. reg' ! i) rules), reg'))"

subsection \<open>The check\<close>

definition count_severity :: "string \<Rightarrow> rule_result list \<Rightarrow> nat" where
  "count_severity sev rs = length (filter (\<lambda>r. r_severity r = sev) rs)"

text \<open>
  \<^verbatim>\<open>files || this._getProjectFiles()\<close> and \<^verbatim>\<open>rules || this._getActiveRules()\<close>
  (an array, also an empty one, is truthy). The second also yields the registry as the
  overrides leave it.
\<close>

definition filesToCheck :: "world \<Rightarrow> quality_gate \<Rightarrow> check_options \<Rightarrow> string list" where
  "filesToCheck w g opts = (case opt_files opts of Some fs \<Rightarrow> fs | None \<Rightarrow> getProjectFiles w g)"

definition activeRules ::
  "world \<Rightarrow> quality_gate \<Rightarrow> check_options \<Rightarrow> quality_rule list \<times> quality_rule list" where
  "activeRules w g opts =
     (case opt_rules opts of
        Some rs \<Rightarrow> (rs, w_registry w)
      | None \<Rightarrow> getActiveRules (w_registry w) (config g))"

definition rulesToRun :: "world \<Rightarrow> quality_gate \<Rightarrow> check_options \<Rightarrow> quality_rule list" where
  "rulesToRun w g opts = fst (activeRules w g opts)"

text \<open>
  The threshold: \<^verbatim>\<open>severity = this.config.severity || 'warn'\<close> is the default of the
  option, taken when the caller gives none.
\<close>

definition threshold :: "quality_gate \<Rightarrow> check_options \<Rightarrow> string" where
  "threshold g opts =
     (case opt_severity opts of
        Some s \<Rightarrow> s
      | None \<Rightarrow>
          (case cfg_severity (config g) of
             None \<Rightarrow> ''warn''
           | Some s \<Rightarrow> if s = [] then ''warn'' else s))"

text \<open>
  \<^verbatim>\<open>check\<close>: the result it resolves with, or the error it rejects with, and the
  world it leaves. The rule set is resolved (and the overrides written into the
  registry) before the loop; an error in the loop ends the run there.
\<close>

definition check ::
  "world \<Rightarrow> quality_gate \<Rightarrow> check_options \<Rightarrow> (js_error + check_result) \<times> world" where
  "check w g opts =
     (let severity = threshold g opts;
          files = filesToCheck w g opts;
          rules = rulesToRun w g opts;
          looped = checkFiles (w_exists w) rules files;
          w1 = w \<lparr> w_registry := snd (activeRules w g opts),
                   w_invoked := w_invoked w @ snd looped \<rparr>
      in case fst looped of
           Inl e \<Rightarrow> (Inl e, w1)
         | Inr res \<Rightarrow>
             (let sm = \<lparr> s_total = length res,
                         s_critical = count_severity ''critical'' res,
                         s_error = count_severity ''error'' res,
                         s_warn = count_severity ''warn'' res,
                         s_info = count_severity ''info'' res,
                         s_filesChecked = length files,
                         s_rulesRun = length rules,
                         s_fixed = None \<rparr>;
                  fixing = (if opt_fix opts then applyFixes w1 (filter r_autoFix res) else (0, w1));
                  sm' = (if opt_fix opts then sm \<lparr> s_fixed := Some (fst fixing) \<rparr> else sm);
                  minSeverity = severityLevel severity;
                  checkResult = \<lparr> passed = \<not> hasBlockingIssues res minSeverity,
                                  results = res, summary = sm' \<rparr>;
                  w2 = snd fixing
              in (Inr checkResult,
                  w2 \<lparr> w_console := w_console w2 @
                                       concat (map (\<lambda>rep. rep checkResult) (reporters g)) \<rparr>)))"

subsection \<open>The pairs a run processes\<close>

text \<open>
  The (file, rule) pairs of a run: every file of the file set that exists, with every
  rule of the rule set that is enabled, in the order of the two loops; whether the
  check function throws a value with members on a pair, and whether it throws
  \<^verbatim>\<open>null\<close> or \<^verbatim>\<open>undefined\<close>.
\<close>

definition processed_pairs ::
  "world \<Rightarrow> quality_gate \<Rightarrow> check_options \<Rightarrow> (string \<times> quality_rule) list" where
  "processed_pairs w g opts =
     concat (map (\<lambda>f. map (Pair f) (filter rule_enabled (rulesToRun w g opts)))
                 (filter (w_exists w) (filesToCheck w g opts)))"

definition throws :: "string \<times> quality_rule \<Rightarrow> bool" where
  "throws p = (case rule_check (snd p) (fst p) (rule_config (snd p)) of
                 Throws (ThrownValue msg) \<Rightarrow> True | _ \<Rightarrow> False)"

definition aborts :: "string \<times> quality_rule \<Rightarrow> bool" where
  "aborts p = (case rule_check (snd p) (fst p) (rule_config (snd p)) of
                 Throws ThrownNullish \<Rightarrow> True | _ \<Rightarrow> False)"

section \<open>Sample inputs\<close>

text \<open>
  A world in which every path but \<^verbatim>\<open>gone.js\<close> exists, a gate without configured
  overrides and reporters, rules as \<^verbatim>\<open>register\<close> builds them (the name defaults to
  the id) around a check function with a fixed outcome, and the options of a run over
  given files, threshold and rules.
\<close>

definition plain_world :: world where
  "plain_world =
     \<lparr> w_registry = [], w_exists = (\<lambda>p. p \<noteq> ''gone.js''), w_read = (\<lambda>p. None),
       w_writable = (\<lambda>p. False), w_readdir = (\<lambda>p. None),
       w_join = (\<lambda>d n. d @ ''/'' @ n), w_extname = (\<lambda>n. []),
       w_console = [], w_invoked = [] \<rparr>"

definition quiet_gate :: quality_gate where
  "quiet_gate =
     \<lparr> projectDir = ''/project'',
       config = \<lparr> cfg_severity = None, cfg_rules = [] \<rparr>,
       reporters = [] \<rparr>"

definition sample_rule :: "string \<Rightarrow> string \<Rightarrow> bool \<Rightarrow> check_return \<Rightarrow> quality_rule" where
  "sample_rule rid sev en ret =
     \<lparr> rule_id = rid, rule_name = rid, rule_severity = sev, rule_enabled = en,
       rule_config = Map.empty, rule_category = None, rule_fix = None,
       rule_check = (\<lambda>p c. ret) \<rparr>"

definition outcome :: "bool \<Rightarrow> bool \<Rightarrow> string \<Rightarrow> check_return" where
  "outcome ps sk msg =
     Returns \<lparr> co_pass = ps, co_message = msg, co_skip = sk, co_autoFix = False,
               co_fix = None, co_details = None \<rparr>"

definition run_on :: "string list \<Rightarrow> string \<Rightarrow> quality_rule list \<Rightarrow> check_options" where
  "run_on fs sev rs =
     \<lparr> opt_files = Some fs, opt_severity = Some sev, opt_rules = Some rs, opt_fix = False \<rparr>"

text \<open>
  A registry that holds the opt-in rule \<^verbatim>\<open>function-length\<close>, disabled as it is
  registered, and a gate configuration that enables it.
\<close>

definition opt_in_registry :: "quality_rule list" where
  "opt_in_registry = [sample_rule ''function-length'' ''warn'' False (outcome True False [])]"

definition opt_in_config :: gate_config where
  "opt_in_config =
     \<lparr> cfg_severity = None,
       cfg_rules = [\<lparr> ov_id = ''function-length'', ov_enabled = Some True,
                      ov_severity = None, ov_config = None \<rparr>] \<rparr>"

text \<open>
  Compiled validators given by what they report: the errors for a configuration
  document, nothing for the other two schemas, every document left as it is. The error of
  a missing top-level property, as the repository's test of \<^verbatim>\<open>parseAJVErrors\<close> writes
  it, is \<open>missing_property name None\<close>.
\<close>

definition reporting :: "ajv_error list \<Rightarrow> validators" where
  "reporting errs =
     \<lparr> configValidate = (\<lambda>doc. (errs, doc)),
       settingsValidate = (\<lambda>doc. ([], doc)),
       qualityGateValidate = (\<lambda>doc. ([], doc)) \<rparr>"

text \<open>
  An engine for the backend: its regular expressions are the two patterns that stand at
  the top level of the schemas (a version, with its optional tag, and the hook event
  names), and it finds nothing to report below a property.
\<close>

definition is_tag_char :: "char \<Rightarrow> bool" where
  "is_tag_char c = (c \<in> set ''abcdefghijklmnopqrstuvwxyzABCDEFGHIJKLMNOPQRSTUVWXYZ0123456789.'')"

definition version_full :: "string \<Rightarrow> bool" where
  "version_full s =
     (case Option.bind (Option.bind (Option.bind (Option.bind (after_digits s) after_dot)
              after_digits) after_dot) after_digits of
        None \<Rightarrow> False
      | Some [] \<Rightarrow> True
      | Some (c # tag) \<Rightarrow> c = CHR ''-'' \<and> tag \<noteq> [] \<and> list_all is_tag_char tag)"

definition sample_engine :: ajv_engine where
  "sample_engine =
     \<lparr> rx_test = (\<lambda>pat s.
          if pat = version_pattern then version_full s
          else if pat = hook_event_pattern
          then s \<in> set [''UserPromptSubmit'', ''PreToolUse'', ''PostToolUse'', ''AgentStop'', ''SessionEnd'']
          else False),
       nested = (\<lambda>sid key j. ([], j)) \<rparr>"

text \<open>
  An engine that also checks, below \<^verbatim>\<open>agents\<close> of a configuration document, what
  the schema requires of an agent: every object under a name of the pattern
  \<^verbatim>\<open>^[a-z][a-z0-9-]*$\<close> that has no \<^verbatim>\<open>role\<close> is a \<^verbatim>\<open>required\<close> violation
  at the agent's path.
\<close>

definition is_agent_name :: "string \<Rightarrow> bool" where
  "is_agent_name s =
     (case s of
        [] \<Rightarrow> False
      | c # cs \<Rightarrow> c \<in> set ''abcdefghijklmnopqrstuvwxyz'' \<and>
                  list_all (\<lambda>d. d \<in> set ''abcdefghijklmnopqrstuvwxyz0123456789-'') cs)"

definition role_engine :: ajv_engine where
  "role_engine =
     sample_engine
       \<lparr> nested := (\<lambda>sid key j.
            if sid = t_id CONFIG_SCHEMA \<and> key = ''agents''
            then (case j of
                    JObj agents \<Rightarrow>
                      (map (\<lambda>a. (missing_property ''role'' (Some (snd a)))
                                   \<lparr> instancePath := Some (''/agents/'' @ pointer_token (fst a)) \<rparr>)
                           (filter (\<lambda>a. is_agent_name (fst a) \<and>
                                         (case snd a of
                                            JObj ps \<Rightarrow> map_of ps ''role'' = None
                                          | _ \<Rightarrow> False)) agents), j)
                  | _ \<Rightarrow> ([], j))
            else ([], j)) \<rparr>"

section \<open>Properties of the quality gate\<close>

lemmas sample_defs = plain_world_def quiet_gate_def sample_rule_def outcome_def run_on_def
  check_def filesToCheck_def rulesToRun_def activeRules_def threshold_def checkFile_def
  run_rule_def returned_row_def thrown_row_def interpolate_def count_severity_def
  hasBlockingIssues_def at_least_def severityLevel_def levels_def file_not_found_def

subsection \<open>What a run returns\<close>

lemma applyFixes_frame:
  "w_invoked (snd (applyFixes w rs)) = w_invoked w \<and> w_registry (snd (applyFixes w rs)) = w_registry w
   \<and> w_exists (snd (applyFixes w rs)) = w_exists w"
  by (induction rs arbitrary: w) (auto simp: Let_def split: option.splits)

lemma check_returns:
  assumes "fst (check w g opts) = Inr cr"
  shows "fst (checkFiles (w_exists w) (rulesToRun w g opts) (filesToCheck w g opts)) = Inr (results cr)
    \<and> s_total (summary cr) = length (results cr)
    \<and> s_error (summary cr) = count_severity ''error'' (results cr)
    \<and> s_filesChecked (summary cr) = length (filesToCheck w g opts)
    \<and> s_rulesRun (summary cr) = length (rulesToRun w g opts)"
  using assms by (auto simp: check_def Let_def split: sum.splits)

lemma check_rejects:
  "fst (check w g opts) = Inl e \<longleftrightarrow>
   fst (checkFiles (w_exists w) (rulesToRun w g opts) (filesToCheck w g opts)) = Inl e"
  by (auto simp: check_def Let_def split: sum.splits)

lemma check_invoked:
  "w_invoked (snd (check w g opts)) =
     w_invoked w @ snd (checkFiles (w_exists w) (rulesToRun w g opts) (filesToCheck w g opts))"
  by (simp add: check_def Let_def applyFixes_frame split: sum.splits)

text \<open>
  Claim C10. The summary of every run that returns has \<open>total\<close> equal to the number of
  returned results, \<open>filesChecked\<close> equal to the number of files of the resolved file
  set, and \<open>rulesRun\<close> equal to the number of rules of the resolved rule set.
\<close>

theorem check_summary_sizes:
  assumes "fst (check w g opts) = Inr cr"
  shows "s_total (summary cr) = length (results cr) \<and>
   s_filesChecked (summary cr) = length (filesToCheck w g opts) \<and>
   s_rulesRun (summary cr) = length (rulesToRun w g opts)"
  using check_returns [OF assms] by simp

theorem check_summary_sizes_witness:
  "fst (check plain_world quiet_gate
      (run_on [''a.js'', ''gone.js''] ''warn''
         [sample_rule ''no-empty-files'' ''warn'' True (outcome True False []),
          sample_rule ''function-length'' ''warn'' False (outcome True False [])])) =
     Inr \<lparr> passed = False,
       results = [returned_row ''a.js'' (sample_rule ''no-empty-files'' ''warn'' True (outcome True False []))
                    \<lparr> co_pass = True, co_message = [], co_skip = False, co_autoFix = False,
                      co_fix = None, co_details = None \<rparr>,
                  file_not_found ''gone.js''],
       summary = \<lparr> s_total = 2, s_critical = 0, s_error = 1, s_warn = 1, s_info = 0,
                   s_filesChecked = 2, s_rulesRun = 2, s_fixed = None \<rparr> \<rparr>"
  using check_summary_sizes [of plain_world quiet_gate
      "run_on [''a.js'', ''gone.js''] ''warn''
         [sample_rule ''no-empty-files'' ''warn'' True (outcome True False []),
          sample_rule ''function-length'' ''warn'' False (outcome True False [])]"]
  by (simp add: sample_defs Let_def)

subsection \<open>Files that do not exist\<close>

lemma r_file_run_rule: "run_rule f rl = Inr r \<Longrightarrow> r_file r = f"
  by (auto simp: run_rule_def returned_row_def thrown_row_def split: check_return.splits thrown.splits)

lemma checkRules_files:
  "fst (checkRules f rules) = Inr rs \<Longrightarrow> r \<in> set rs \<Longrightarrow> r_file r = f"
proof (induction rules arbitrary: rs)
  case Nil
  then show ?case by simp
next
  case (Cons rl rules)
  show ?case
  proof (cases "rule_enabled rl")
    case False
    with Cons show ?thesis by simp
  next
    case True
    with Cons.prems(1) obtain r0 rs0 where
      r0: "run_rule f rl = Inr r0" and rs0: "fst (checkRules f rules) = Inr rs0" and rs: "rs = r0 # rs0"
      by (auto split: sum.splits prod.splits)
    from Cons.prems(2) rs have "r = r0 \<or> r \<in> set rs0" by simp
    then show ?thesis
      using r_file_run_rule [OF r0] Cons.IH [OF rs0] by auto
  qed
qed

lemma checkRules_calls: "c \<in> set (snd (checkRules f rules)) \<Longrightarrow> fst c = f"
  by (induction rules) (auto split: if_splits sum.splits prod.splits)

lemma checkFile_files:
  "fst (checkFile ex f rules) = Inr rs \<Longrightarrow> r \<in> set rs \<Longrightarrow> r_file r = f"
  by (auto simp: checkFile_def file_not_found_def dest: checkRules_files split: if_splits)

lemma checkFile_calls: "c \<in> set (snd (checkFile ex f rules)) \<Longrightarrow> fst c = f \<and> ex f"
  by (auto simp: checkFile_def dest: checkRules_calls split: if_splits)

lemma checkFiles_calls: "c \<in> set (snd (checkFiles ex rules files)) \<Longrightarrow> ex (fst c)"
proof (induction files)
  case Nil
  then show ?case by simp
next
  case (Cons f files)
  have here: "\<forall>d \<in> set (snd (checkFile ex f rules)). ex (fst d)"
    using checkFile_calls by blast
  obtain a xs where one: "checkFile ex f rules = (a, xs)" by (cases "checkFile ex f rules")
  obtain b ys where rest: "checkFiles ex rules files = (b, ys)" by (cases "checkFiles ex rules files")
  from Cons.prems one rest have "c \<in> set xs \<or> c \<in> set ys"
    by (auto split: sum.splits)
  then show ?case using here Cons.IH one rest by auto
qed

text \<open>A missing file gives one result for each time the file list names it.\<close>

lemma missing_results_count:
  "fst (checkFiles ex rules files) = Inr rs \<Longrightarrow> \<not> ex f \<Longrightarrow>
   filter (\<lambda>r. r_file r = f) rs = replicate (count_list files f) (file_not_found f)"
proof (induction files arbitrary: rs)
  case Nil
  then show ?case by simp
next
  case (Cons g files)
  from Cons.prems(1) obtain rs1 rs2 where
    one: "fst (checkFile ex g rules) = Inr rs1" and
    rest: "fst (checkFiles ex rules files) = Inr rs2" and rs: "rs = rs1 @ rs2"
    by (auto split: prod.splits sum.splits)
  have tail: "filter (\<lambda>r. r_file r = f) rs2 = replicate (count_list files f) (file_not_found f)"
    using Cons.IH [OF rest Cons.prems(2)] .
  show ?case
  proof (cases "g = f")
    case True
    with one Cons.prems(2) have "rs1 = [file_not_found f]" by (simp add: checkFile_def)
    with True rs tail show ?thesis by (simp add: file_not_found_def)
  next
    case False
    have "filter (\<lambda>r. r_file r = f) rs1 = []"
      using False checkFile_files [OF one] by (auto simp: filter_empty_conv)
    with False rs tail show ?thesis by simp
  qed
qed

text \<open>
  Claim C9, as amended. For a file of the file set that does not exist: a run that
  returns holds one result of the file for every time the file set names it (exactly one
  when it is named once), each the \<^verbatim>\<open>file-exists\<close> result with severity
  \<^verbatim>\<open>error\<close>, pass false and the message \<^verbatim>\<open>File not found\<close>; and no check
  function is invoked for the file, whether the run returns or not: the log of
  invocations gains no entry for it.
\<close>

theorem missing_file_results:
  assumes "\<not> w_exists w f"
  shows "(\<forall>cr. fst (check w g opts) = Inr cr \<longrightarrow>
            filter (\<lambda>r. r_file r = f) (results cr) =
              replicate (count_list (filesToCheck w g opts) f)
                \<lparr> r_file = f, r_rule = ''file-exists'', r_ruleName = ''File Exists'',
                  r_severity = ''error'', r_message = ''File not found'', r_pass = False,
                  r_skip = False, r_fix = None, r_autoFix = False, r_details = None \<rparr>)
         \<and> filter (\<lambda>c. fst c = f) (w_invoked (snd (check w g opts))) =
           filter (\<lambda>c. fst c = f) (w_invoked w)"
proof (intro conjI allI impI)
  fix cr
  assume "fst (check w g opts) = Inr cr"
  from check_returns [OF this]
  have "fst (checkFiles (w_exists w) (rulesToRun w g opts) (filesToCheck w g opts)) = Inr (results cr)"
    by simp
  then have "filter (\<lambda>r. r_file r = f) (results cr) =
      replicate (count_list (filesToCheck w g opts) f) (file_not_found f)"
    using assms by (rule missing_results_count)
  then show "filter (\<lambda>r. r_file r = f) (results cr) =
              replicate (count_list (filesToCheck w g opts) f)
                \<lparr> r_file = f, r_rule = ''file-exists'', r_ruleName = ''File Exists'',
                  r_severity = ''error'', r_message = ''File not found'', r_pass = False,
                  r_skip = False, r_fix = None, r_autoFix = False, r_details = None \<rparr>"
    by (simp add: file_not_found_def)
next
  have "filter (\<lambda>c. fst c = f)
      (snd (checkFiles (w_exists w) (rulesToRun w g opts) (filesToCheck w g opts))) = []"
    using assms by (auto simp: filter_empty_conv dest: checkFiles_calls)
  then show "filter (\<lambda>c. fst c = f) (w_invoked (snd (check w g opts))) =
           filter (\<lambda>c. fst c = f) (w_invoked w)"
    by (simp add: check_invoked)
qed

text \<open>
  A missing file that the file list of the caller names twice has two results, not one.
\<close>

theorem missing_file_twice_counterexample:
  "\<not> w_exists plain_world ''gone.js''
   \<and> map_sum id (\<lambda>cr. filter (\<lambda>r. r_file r = ''gone.js'') (results cr))
       (fst (check plain_world quiet_gate
          (run_on [''gone.js'', ''gone.js''] ''warn''
             [sample_rule ''no-empty-files'' ''warn'' True (outcome True False [])]))) =
     Inr [file_not_found ''gone.js'', file_not_found ''gone.js'']"
  by (simp add: sample_defs Let_def)

theorem missing_file_results_witness:
  "\<not> w_exists plain_world ''gone.js''
   \<and> (\<exists>cr. fst (check plain_world quiet_gate
           (run_on [''gone.js'', ''a.js''] ''warn''
              [sample_rule ''file-size-limit'' ''warn'' True (Throws (ThrownValue (Some ''EACCES'')))])) = Inr cr
         \<and> filter (\<lambda>r. r_file r = ''gone.js'') (results cr) = [file_not_found ''gone.js''])
   \<and> w_invoked (snd (check plain_world quiet_gate
           (run_on [''gone.js'', ''a.js''] ''warn''
              [sample_rule ''file-size-limit'' ''warn'' True (Throws (ThrownValue (Some ''EACCES'')))]))) =
       [(''a.js'', ''file-size-limit'')]"
  using missing_file_results [of plain_world "''gone.js''" quiet_gate
      "run_on [''gone.js'', ''a.js''] ''warn''
         [sample_rule ''file-size-limit'' ''warn'' True (Throws (ThrownValue (Some ''EACCES'')))]"]
  by (simp add: sample_defs Let_def)


subsection \<open>Rules that throw\<close>

lemma thrown_value_row:
  "rule_check rl f (rule_config rl) = Throws (ThrownValue msg) \<Longrightarrow>
   run_rule f rl = Inr (thrown_row f rl msg)"
  by (simp add: run_rule_def)

lemma run_rule_rejects: "run_rule f rl = Inl e \<longleftrightarrow> aborts (f, rl)"
  by (cases e) (simp add: run_rule_def aborts_def split: check_return.splits thrown.splits)

lemma checkRules_rejects:
  "(\<exists>e. fst (checkRules f rules) = Inl e) \<longleftrightarrow>
   (\<exists>rl \<in> set (filter rule_enabled rules). aborts (f, rl))"
proof (induction rules)
  case Nil
  then show ?case by simp
next
  case (Cons rl rules)
  show ?case
  proof (cases "rule_enabled rl")
    case False
    with Cons show ?thesis by simp
  next
    case True
    show ?thesis
    proof (cases "run_rule f rl")
      case (Inl e)
      then have "aborts (f, rl)" by (simp add: run_rule_rejects)
      with True Inl show ?thesis by simp
    next
      case (Inr r)
      then have "\<not> aborts (f, rl)" using run_rule_rejects [of f rl] by auto
      with True Inr Cons show ?thesis
        by (cases "checkRules f rules") (auto split: sum.splits)
    qed
  qed
qed

lemma checkFiles_rejects:
  "(\<exists>e. fst (checkFiles ex rules files) = Inl e) \<longleftrightarrow>
   (\<exists>f \<in> set (filter ex files). \<exists>rl \<in> set (filter rule_enabled rules). aborts (f, rl))"
proof (induction files)
  case Nil
  then show ?case by simp
next
  case (Cons f files)
  have one: "(\<exists>e. fst (checkFile ex f rules) = Inl e) \<longleftrightarrow>
      (ex f \<and> (\<exists>rl \<in> set (filter rule_enabled rules). aborts (f, rl)))"
    using checkRules_rejects [of f rules] by (simp add: checkFile_def)
  show ?case
  proof (cases "fst (checkFile ex f rules)")
    case (Inl e)
    then have "\<exists>e. fst (checkFiles ex rules (f # files)) = Inl e"
      by (cases "checkFile ex f rules") simp
    moreover from Inl one have "ex f \<and> (\<exists>rl \<in> set (filter rule_enabled rules). aborts (f, rl))"
      by blast
    ultimately show ?thesis by auto
  next
    case (Inr rs)
    then have "(\<exists>e. fst (checkFiles ex rules (f # files)) = Inl e) \<longleftrightarrow>
        (\<exists>e. fst (checkFiles ex rules files) = Inl e)"
      by (cases "checkFile ex f rules"; cases "checkFiles ex rules files")
        (auto split: sum.splits)
    moreover from Inr one have "\<not> (ex f \<and> (\<exists>rl \<in> set (filter rule_enabled rules). aborts (f, rl)))"
      by auto
    ultimately show ?thesis using Cons by auto
  qed
qed

text \<open>
  A run is rejected exactly when the check function of a processed pair throws
  \<^verbatim>\<open>null\<close> or \<^verbatim>\<open>undefined\<close>; the error is then the \<^verbatim>\<open>TypeError\<close> of the handler.
\<close>

lemma check_rejects_iff:
  "fst (check w g opts) = Inl TypeError \<longleftrightarrow> (\<exists>p \<in> set (processed_pairs w g opts). aborts p)"
proof -
  have "fst (check w g opts) = Inl TypeError \<longleftrightarrow>
      (\<exists>e. fst (checkFiles (w_exists w) (rulesToRun w g opts) (filesToCheck w g opts)) = Inl e)"
    using check_rejects [of w g opts] by (metis js_error.exhaust)
  then show ?thesis
    unfolding checkFiles_rejects by (auto simp: processed_pairs_def)
qed

lemma count_severity_append:
  "count_severity sev (xs @ ys) = count_severity sev xs + count_severity sev ys"
  by (simp add: count_severity_def)

lemma count_checkRules:
  "fst (checkRules f rules) = Inr rs \<Longrightarrow>
   count_severity ''error'' rs =
     length (filter (\<lambda>rl. throws (f, rl)) (filter rule_enabled rules)) +
     length (filter (\<lambda>rl. \<not> throws (f, rl) \<and> rule_severity rl = ''error'') (filter rule_enabled rules))"
proof (induction rules arbitrary: rs)
  case Nil
  then show ?case by (simp add: count_severity_def)
next
  case (Cons rl rules)
  show ?case
  proof (cases "rule_enabled rl")
    case False
    with Cons show ?thesis by simp
  next
    case True
    with Cons.prems obtain r0 rs0 where
      r0: "run_rule f rl = Inr r0" and rs0: "fst (checkRules f rules) = Inr rs0" and rs: "rs = r0 # rs0"
      by (auto split: sum.splits prod.splits)
    have "count_severity ''error'' [r0] =
        (if throws (f, rl) \<or> rule_severity rl = ''error'' then 1 else 0)"
      using r0
      by (auto simp: run_rule_def throws_def count_severity_def returned_row_def thrown_row_def
          split: check_return.splits thrown.splits)
    moreover have "count_severity ''error'' rs = count_severity ''error'' [r0] + count_severity ''error'' rs0"
      using rs by (simp add: count_severity_def)
    ultimately show ?thesis using True Cons.IH [OF rs0] by auto
  qed
qed

lemma count_checkFiles:
  "fst (checkFiles ex rules files) = Inr rs \<Longrightarrow>
   count_severity ''error'' rs =
     length (filter throws (concat (map (\<lambda>f. map (Pair f) (filter rule_enabled rules)) (filter ex files)))) +
     length (filter (\<lambda>p. \<not> throws p \<and> rule_severity (snd p) = ''error'')
               (concat (map (\<lambda>f. map (Pair f) (filter rule_enabled rules)) (filter ex files)))) +
     length (filter (\<lambda>f. \<not> ex f) files)"
proof (induction files arbitrary: rs)
  case Nil
  then show ?case by (simp add: count_severity_def)
next
  case (Cons f files)
  from Cons.prems obtain rs1 rs2 where
    one: "fst (checkFile ex f rules) = Inr rs1" and
    rest: "fst (checkFiles ex rules files) = Inr rs2" and rs: "rs = rs1 @ rs2"
    by (auto split: prod.splits sum.splits)
  note tail = Cons.IH [OF rest]
  show ?case
  proof (cases "ex f")
    case True
    with one have "fst (checkRules f rules) = Inr rs1" by (simp add: checkFile_def)
    from count_checkRules [OF this] True rs tail show ?thesis
      by (simp add: count_severity_append filter_map comp_def)
  next
    case False
    with one have "rs1 = [file_not_found f]" by (simp add: checkFile_def)
    then have "count_severity ''error'' rs1 = 1"
      by (simp add: count_severity_def file_not_found_def)
    with False rs tail show ?thesis by (simp add: count_severity_append)
  qed
qed

text \<open>
  In a run that returns, every processed pair whose check function throws adds one to
  the error count.
\<close>

lemma returned_error_count:
  assumes "fst (check w g opts) = Inr cr"
  shows "s_error (summary cr) =
       length (filter throws (processed_pairs w g opts)) +
       length (filter (\<lambda>p. \<not> throws p \<and> rule_severity (snd p) = ''error'')
                 (processed_pairs w g opts)) +
       length (filter (\<lambda>f. \<not> w_exists w f) (filesToCheck w g opts))"
proof -
  from check_returns [OF assms]
  have run: "fst (checkFiles (w_exists w) (rulesToRun w g opts) (filesToCheck w g opts)) = Inr (results cr)"
    and cnt: "s_error (summary cr) = count_severity ''error'' (results cr)" by simp_all
  show ?thesis unfolding cnt processed_pairs_def by (rule count_checkFiles [OF run])
qed

text \<open>
  Claim C3. A check function that throws \<^verbatim>\<open>null\<close> or \<^verbatim>\<open>undefined\<close> (or rejects
  its promise without a reason) ends the run: the handler's read of \<^verbatim>\<open>e.message\<close>
  throws a \<^verbatim>\<open>TypeError\<close>, the run is rejected with it, and neither the second rule
  nor the second file is processed. The same run with a rule that throws an error object
  returns: both pairs of the throwing rule have the synthetic result, with severity
  \<^verbatim>\<open>error\<close>, pass false and the thrown message, and each adds one to the error
  count.
\<close>

theorem nullish_throw_rejects_run:
  "run_rule ''a.js'' (sample_rule ''file-size-limit'' ''warn'' True (Throws ThrownNullish)) = Inl TypeError
   \<and> fst (check plain_world quiet_gate
        (run_on [''a.js'', ''b.js''] ''warn''
           [sample_rule ''file-size-limit'' ''warn'' True (Throws ThrownNullish),
            sample_rule ''no-empty-files'' ''warn'' True (outcome True False [])])) = Inl TypeError
   \<and> w_invoked (snd (check plain_world quiet_gate
        (run_on [''a.js'', ''b.js''] ''warn''
           [sample_rule ''file-size-limit'' ''warn'' True (Throws ThrownNullish),
            sample_rule ''no-empty-files'' ''warn'' True (outcome True False [])]))) =
       [(''a.js'', ''file-size-limit'')]
   \<and> fst (check plain_world quiet_gate
        (run_on [''a.js'', ''b.js''] ''warn''
           [sample_rule ''file-size-limit'' ''warn'' True (Throws (ThrownValue (Some ''EACCES''))),
            sample_rule ''no-empty-files'' ''warn'' True (outcome True False [])])) =
       Inr \<lparr> passed = False,
         results =
           [\<lparr> r_file = ''a.js'', r_rule = ''file-size-limit'', r_ruleName = ''file-size-limit'',
              r_severity = ''error'', r_message = ''Rule execution error: EACCES'',
              r_pass = False, r_skip = False, r_fix = None, r_autoFix = False, r_details = None \<rparr>,
            \<lparr> r_file = ''a.js'', r_rule = ''no-empty-files'', r_ruleName = ''no-empty-files'',
              r_severity = ''warn'', r_message = [],
              r_pass = True, r_skip = False, r_fix = None, r_autoFix = False, r_details = None \<rparr>,
            \<lparr> r_file = ''b.js'', r_rule = ''file-size-limit'', r_ruleName = ''file-size-limit'',
              r_severity = ''error'', r_message = ''Rule execution error: EACCES'',
              r_pass = False, r_skip = False, r_fix = None, r_autoFix = False, r_details = None \<rparr>,
            \<lparr> r_file = ''b.js'', r_rule = ''no-empty-files'', r_ruleName = ''no-empty-files'',
              r_severity = ''warn'', r_message = [],
              r_pass = True, r_skip = False, r_fix = None, r_autoFix = False, r_details = None \<rparr>],
         summary = \<lparr> s_total = 4, s_critical = 0, s_error = 2, s_warn = 2, s_info = 0,
                     s_filesChecked = 2, s_rulesRun = 2, s_fixed = None \<rparr> \<rparr>"
  by (simp add: sample_defs Let_def)

subsection \<open>The threshold, skipped results and overrides\<close>

lemma skipped_never_block:
  "hasBlockingIssues rs m = hasBlockingIssues (filter (\<lambda>r. \<not> r_skip r) rs) m"
  by (induction rs) (auto simp: hasBlockingIssues_def)

lemma fetched_rules:
  "map (\<lambda>i. reg ! i) (filter (\<lambda>i. P (reg ! i)) [0..<length reg]) = filter P reg"
proof -
  have "filter P (map (\<lambda>i. reg ! i) [0..<length reg]) =
        map (\<lambda>i. reg ! i) (filter (\<lambda>i. P (reg ! i)) [0..<length reg])"
    by (simp add: filter_map comp_def)
  then show ?thesis by (simp add: map_nth)
qed

lemma length_filter_conj:
  "length (filter (\<lambda>x. P x \<and> Q x) xs) \<le> length (filter P xs)"
  by (induction xs) auto

lemma active_rules_bound:
  "length (fst (getActiveRules reg cfg)) \<le> length (filter rule_enabled reg)"
proof -
  have "length (fst (getActiveRules reg cfg)) \<le>
        length (filter (\<lambda>i. rule_enabled (reg ! i)) [0..<length reg])"
    by (simp add: getActiveRules_def registry_getAll_def rule_matches_def Let_def
        length_filter_conj)
  also have "\<dots> = length (map (\<lambda>i. reg ! i) (filter (\<lambda>i. rule_enabled (reg ! i)) [0..<length reg]))"
    by simp
  also have "\<dots> = length (filter rule_enabled reg)"
    by (simp only: fetched_rules)
  finally show ?thesis .
qed

text \<open>
  Claim C1. The table of levels gives \<^verbatim>\<open>info\<close> the level 0, but
  \<^verbatim>\<open>_severityLevel\<close> returns 1 for it, the level of \<^verbatim>\<open>warn\<close>. A run with
  threshold \<^verbatim>\<open>warn\<close> whose only failing result has severity \<^verbatim>\<open>info\<close> does not
  pass, although no failing result has a level of at least the threshold's in the
  ordering of the claim. A run whose failing results have severity \<^verbatim>\<open>warn\<close> and
  \<^verbatim>\<open>error\<close> passes under the threshold \<^verbatim>\<open>critical\<close>.
\<close>

theorem info_failure_blocks_at_warn:
  "map_of levels ''info'' = Some 0 \<and> severityLevel ''info'' = Some 1 \<and>
   severityLevel ''warn'' = Some 1 \<and> severityLevel ''error'' = Some 2 \<and>
   severityLevel ''critical'' = Some 3 \<and>
   fst (check plain_world quiet_gate
      (run_on [''large.js''] ''warn''
         [sample_rule ''line-count-limit'' ''info'' True (outcome False False ''too long'')])) =
     Inr \<lparr> passed = False,
       results = [\<lparr> r_file = ''large.js'', r_rule = ''line-count-limit'',
                    r_ruleName = ''line-count-limit'', r_severity = ''info'',
                    r_message = ''too long'', r_pass = False, r_skip = False, r_fix = None,
                    r_autoFix = False, r_details = None \<rparr>],
       summary = \<lparr> s_total = 1, s_critical = 0, s_error = 0, s_warn = 0, s_info = 1,
                   s_filesChecked = 1, s_rulesRun = 1, s_fixed = None \<rparr> \<rparr> \<and>
   (\<exists>cr. fst (check plain_world quiet_gate
      (run_on [''large.js''] ''critical''
         [sample_rule ''line-count-limit'' ''error'' True (outcome False False ''too long''),
          sample_rule ''file-size-limit'' ''warn'' True (outcome False False ''too big'')])) = Inr cr
      \<and> passed cr)"
  by (simp add: sample_defs Let_def)

text \<open>
  Claim C2. A skipped result does not block the gate, but it is counted: a run whose
  only result is a skipped one of severity \<^verbatim>\<open>warn\<close> passes and reports one warning.
  For the decision alone the claim holds: leaving the skipped results out never changes
  whether there is a blocking issue.
\<close>

theorem skipped_result_is_tallied:
  "fst (check plain_world quiet_gate
      (run_on [''notes.md''] ''warn''
         [sample_rule ''no-console-logs'' ''warn'' True (outcome True True [])])) =
     Inr \<lparr> passed = True,
       results = [\<lparr> r_file = ''notes.md'', r_rule = ''no-console-logs'',
                    r_ruleName = ''no-console-logs'', r_severity = ''warn'',
                    r_message = [], r_pass = True, r_skip = True, r_fix = None,
                    r_autoFix = False, r_details = None \<rparr>],
       summary = \<lparr> s_total = 1, s_critical = 0, s_error = 0, s_warn = 1, s_info = 0,
                   s_filesChecked = 1, s_rulesRun = 1, s_fixed = None \<rparr> \<rparr>
   \<and> (\<forall>rs m. hasBlockingIssues rs m = hasBlockingIssues (filter (\<lambda>r. \<not> r_skip r) rs) m)"
  using skipped_never_block by (simp add: sample_defs Let_def)

text \<open>
  Claim C6. A rule that is disabled in the registry and enabled by an override of the
  gate's configuration is not in the rule set of the run that applies the override: the
  run leaves the rule enabled in the registry and runs no rule. A second resolution of
  the active rules, against the registry the first one left, includes the rule. No
  resolution yields more rules than the registry had enabled before the overrides.
\<close>

theorem override_enabled_rule_left_out:
  "getActiveRules opt_in_registry opt_in_config =
     ([], [sample_rule ''function-length'' ''warn'' True (outcome True False [])])
   \<and> fst (check (plain_world \<lparr> w_registry := opt_in_registry \<rparr>)
        (quiet_gate \<lparr> config := opt_in_config \<rparr>)
        \<lparr> opt_files = Some [''a.js''], opt_severity = None, opt_rules = None, opt_fix = False \<rparr>) =
       Inr \<lparr> passed = True, results = [],
             summary = \<lparr> s_total = 0, s_critical = 0, s_error = 0, s_warn = 0, s_info = 0,
                         s_filesChecked = 1, s_rulesRun = 0, s_fixed = None \<rparr> \<rparr>
   \<and> fst (getActiveRules (snd (getActiveRules opt_in_registry opt_in_config)) opt_in_config) =
     [sample_rule ''function-length'' ''warn'' True (outcome True False [])]
   \<and> (\<forall>reg cfg. length (fst (getActiveRules reg cfg)) \<le> length (filter rule_enabled reg))"
  using active_rules_bound
  by (simp add: getActiveRules_def registry_getAll_def rule_matches_def apply_override_def
      registry_get_def opt_in_registry_def opt_in_config_def sample_defs Let_def)

section \<open>Properties of the validator\<close>

lemmas backend_defs = validate_def getValidator_def ajv_validators_def ajv_compile_def
  check_entry_def applicable_def check_prop_def sample_engine_def CONFIG_SCHEMA_def
  SETTINGS_SCHEMA_def QUALITY_GATE_SCHEMA_def of_type_def version_pattern_def
  hook_event_pattern_def version_full_def after_digits_def after_dot_def is_digit_def
  is_tag_char_def pointer_token_def missing_property_def violation_def type_name_def
  process_errors_def parseAJVErrors_def parseAJVError_def or_else_def
  getSeverityFromKeyword_def severityMap_def generateFixFromError_def interpolate_def
  schema_member_def is_warning_def List.map_filter_def object_prototype_names_def

subsection \<open>Unknown schema names\<close>

text \<open>
  Claim C5. Without the backend, an unknown schema name is not reported: the document of
  the repository's own test is valid under the name \<^verbatim>\<open>unknown-schema\<close>, with no
  error. With the backend the same call returns the single critical error with path
  \<^verbatim>\<open>schema\<close>.
\<close>

theorem unknown_schema_passes_fallback:
  "validate None (JObj [(''test'', JStr ''value'')]) (Some ''unknown-schema'') =
     Inr (\<lparr> vr_valid = True, vr_errors = [], vr_warnings = [], vr_fixes = [] \<rparr>,
          JObj [(''test'', JStr ''value'')])
   \<and> validate (Some (ajv_validators sample_engine)) (JObj [(''test'', JStr ''value'')]) (Some ''unknown-schema'') =
     Inr (\<lparr> vr_valid = False,
            vr_errors = [\<lparr> e_path = ''schema'', e_message = ''Unknown schema: unknown-schema'',
                           e_severity = ''critical'', e_expected = None, e_actual = None,
                           e_keyword = None,
                           e_fix = Some ''Use valid schema name: config, settings, quality-gate'' \<rparr>],
            vr_warnings = [], vr_fixes = [] \<rparr>,
          JObj [(''test'', JStr ''value'')])"
  by (simp add: validate_def basicValidate_def js_truthy_def js_typeof_def getValidator_def
      object_prototype_names_def unknown_schema_def)

text \<open>
  With the backend, every name that is none of the three and not a member inherited
  from the prototype gives the single error.
\<close>

lemma unknown_schema_with_backend:
  "S \<notin> set [''config'', ''settings'', ''quality-gate''] \<Longrightarrow> S \<notin> set object_prototype_names \<Longrightarrow>
   validate (Some vs) D (Some S) = Inr (unknown_schema S, D)"
  by (simp add: validate_def getValidator_def object_prototype_names_def)

subsection \<open>A document without a version\<close>

lemma parse_required:
  "keyword a = ''required'' \<Longrightarrow> instancePath a = Some [] \<Longrightarrow> missingProperty a = Some name \<Longrightarrow>
   e_path (parseAJVError a) = ''root'' \<and> e_severity (parseAJVError a) = ''critical'' \<and>
   e_fix (parseAJVError a) = Some (''Add missing field: '' @ name) \<and> \<not> is_warning (parseAJVError a)"
  by (simp add: parseAJVError_def or_else_def getSeverityFromKeyword_def severityMap_def
      generateFixFromError_def interpolate_def is_warning_def)

lemma fallback_missing_version:
  "map_of fs ''version'' = None \<Longrightarrow>
   validate None (JObj fs) (Some ''config'') =
     Inr (\<lparr> vr_valid = False,
            vr_errors = [\<lparr> e_path = ''version'', e_message = ''Missing required field: version'',
                           e_severity = ''critical'', e_expected = None, e_actual = None,
                           e_keyword = None,
                           e_fix = Some (''Add '' @ [CHR 0x22] @ ''version'' @ [CHR 0x22] @ '': '' @
                                         [CHR 0x22] @ ''1.0.0'' @ [CHR 0x22] @ '' to config'') \<rparr>],
            vr_warnings = [], vr_fixes = [] \<rparr>, JObj fs)"
  by (simp add: validate_def basicValidate_def js_get_def js_truthy_def js_typeof_def)

lemma backend_reports:
  assumes "configValidate vs D = (errs, d')" and "a \<in> set errs"
  shows "validate (Some vs) D (Some ''config'') = Inr (process_errors errs, d')"
proof -
  from assms(2) have "errs \<noteq> []" by auto
  with assms(1) show ?thesis by (simp add: validate_def getValidator_def)
qed

lemma reported_required:
  assumes "configValidate vs D = (errs, d')" and "a \<in> set errs" and "keyword a = ''required''"
    and "instancePath a = Some []" and "missingProperty a = Some ''version''"
  shows "\<exists>r. validate (Some vs) D (Some ''config'') = Inr (r, d') \<and> \<not> vr_valid r \<and>
              parseAJVError a \<in> set (vr_errors r) \<and>
              e_path (parseAJVError a) = ''root'' \<and>
              e_severity (parseAJVError a) = ''critical'' \<and>
              e_fix (parseAJVError a) = Some ''Add missing field: version''"
proof -
  have v: "validate (Some vs) D (Some ''config'') = Inr (process_errors errs, d')"
    using assms(1,2) by (rule backend_reports)
  have p: "e_path (parseAJVError a) = ''root'' \<and> e_severity (parseAJVError a) = ''critical'' \<and>
   e_fix (parseAJVError a) = Some (''Add missing field: '' @ ''version'') \<and> \<not> is_warning (parseAJVError a)"
    using assms(3-5) by (rule parse_required)
  with assms(2) have "parseAJVError a \<in> set (vr_errors (process_errors errs))"
    by (simp add: process_errors_def parseAJVErrors_def Let_def)
  with v p show ?thesis by (simp add: process_errors_def Let_def)
qed

lemma compile_missing_version:
  "map_of fs ''version'' = None \<Longrightarrow>
   missing_property ''version'' (Some (JObj fs)) \<in> set (fst (ajv_compile eng CONFIG_SCHEMA (JObj fs)))"
  by (simp add: ajv_compile_def CONFIG_SCHEMA_def)

text \<open>
  Claim C4, as amended. For every object without a \<^verbatim>\<open>version\<close> field the result
  is invalid, without the backend and with it. Without the backend the result holds
  exactly one error, critical, with path \<^verbatim>\<open>version\<close>. With the backend, the
  \<^verbatim>\<open>required\<close> violation reported for the missing field (at the root) becomes an
  entry of the error list that is critical, has the fix
  \<^verbatim>\<open>Add missing field: version\<close> and the path \<^verbatim>\<open>root\<close>: for every compiled
  validator that reports the violation, and for the validator compiled from the
  configuration schema, which reports it for every such object, whatever its engine.
\<close>

theorem missing_version_reported:
  assumes "map_of fs ''version'' = None"
  shows "validate None (JObj fs) (Some ''config'') =
     Inr (\<lparr> vr_valid = False,
            vr_errors = [\<lparr> e_path = ''version'', e_message = ''Missing required field: version'',
                           e_severity = ''critical'', e_expected = None, e_actual = None,
                           e_keyword = None,
                           e_fix = Some (''Add '' @ [CHR 0x22] @ ''version'' @ [CHR 0x22] @ '': '' @
                                         [CHR 0x22] @ ''1.0.0'' @ [CHR 0x22] @ '' to config'') \<rparr>],
            vr_warnings = [], vr_fixes = [] \<rparr>, JObj fs)
   \<and> (\<forall>vs errs d' a.
         configValidate vs (JObj fs) = (errs, d') \<and> a \<in> set errs \<and> keyword a = ''required'' \<and>
         instancePath a = Some [] \<and> missingProperty a = Some ''version'' \<longrightarrow>
         (\<exists>r. validate (Some vs) (JObj fs) (Some ''config'') = Inr (r, d') \<and> \<not> vr_valid r \<and>
              parseAJVError a \<in> set (vr_errors r) \<and>
              e_path (parseAJVError a) = ''root'' \<and>
              e_severity (parseAJVError a) = ''critical'' \<and>
              e_fix (parseAJVError a) = Some ''Add missing field: version''))
   \<and> (\<forall>eng. \<exists>r d'.
         validate (Some (ajv_validators eng)) (JObj fs) (Some ''config'') = Inr (r, d') \<and> \<not> vr_valid r \<and>
         parseAJVError (missing_property ''version'' (Some (JObj fs))) \<in> set (vr_errors r) \<and>
         e_path (parseAJVError (missing_property ''version'' (Some (JObj fs)))) = ''root'' \<and>
         e_severity (parseAJVError (missing_property ''version'' (Some (JObj fs)))) = ''critical'' \<and>
         e_fix (parseAJVError (missing_property ''version'' (Some (JObj fs)))) =
           Some ''Add missing field: version'')"
proof (intro conjI allI impI)
  show "validate None (JObj fs) (Some ''config'') =
     Inr (\<lparr> vr_valid = False,
            vr_errors = [\<lparr> e_path = ''version'', e_message = ''Missing required field: version'',
                           e_severity = ''critical'', e_expected = None, e_actual = None,
                           e_keyword = None,
                           e_fix = Some (''Add '' @ [CHR 0x22] @ ''version'' @ [CHR 0x22] @ '': '' @
                                         [CHR 0x22] @ ''1.0.0'' @ [CHR 0x22] @ '' to config'') \<rparr>],
            vr_warnings = [], vr_fixes = [] \<rparr>, JObj fs)"
    using assms by (rule fallback_missing_version)
next
  fix vs :: validators and errs d' a
  assume h: "configValidate vs (JObj fs) = (errs, d') \<and> a \<in> set errs \<and> keyword a = ''required'' \<and>
         instancePath a = Some [] \<and> missingProperty a = Some ''version''"
  then show "\<exists>r. validate (Some vs) (JObj fs) (Some ''config'') = Inr (r, d') \<and> \<not> vr_valid r \<and>
              parseAJVError a \<in> set (vr_errors r) \<and>
              e_path (parseAJVError a) = ''root'' \<and>
              e_severity (parseAJVError a) = ''critical'' \<and>
              e_fix (parseAJVError a) = Some ''Add missing field: version''"
    using reported_required [of vs "JObj fs" errs d' a] by blast
next
  fix eng
  obtain errs d' where c: "configValidate (ajv_validators eng) (JObj fs) = (errs, d')"
    by (cases "configValidate (ajv_validators eng) (JObj fs)")
  then have "errs = fst (ajv_compile eng CONFIG_SCHEMA (JObj fs))"
    by (simp add: ajv_validators_def)
  with assms have "missing_property ''version'' (Some (JObj fs)) \<in> set errs"
    by (simp add: compile_missing_version)
  from reported_required [OF c this]
  show "\<exists>r d'.
         validate (Some (ajv_validators eng)) (JObj fs) (Some ''config'') = Inr (r, d') \<and> \<not> vr_valid r \<and>
         parseAJVError (missing_property ''version'' (Some (JObj fs))) \<in> set (vr_errors r) \<and>
         e_path (parseAJVError (missing_property ''version'' (Some (JObj fs)))) = ''root'' \<and>
         e_severity (parseAJVError (missing_property ''version'' (Some (JObj fs)))) = ''critical'' \<and>
         e_fix (parseAJVError (missing_property ''version'' (Some (JObj fs)))) =
           Some ''Add missing field: version''"
    by (simp add: missing_property_def) blast
qed

text \<open>
  With the backend, the empty document has one critical error, and its path is
  \<^verbatim>\<open>root\<close>, not \<^verbatim>\<open>version\<close>: with compiled validators that report the
  missing property as the repository's test writes the error, and with the modelled
  backend. A document without a version whose agent has no role has two critical errors.
\<close>

theorem missing_version_path_counterexample:
  "map_sum id (\<lambda>p. (vr_valid (fst p),
                     map e_path (filter (\<lambda>e. e_severity e = ''critical'') (vr_errors (fst p)))))
     (validate (Some (reporting [missing_property ''version'' None])) (JObj []) (Some ''config'')) =
   Inr (False, [''root''])
   \<and> map_sum id (\<lambda>p. (vr_valid (fst p),
                     map e_path (filter (\<lambda>e. e_severity e = ''critical'') (vr_errors (fst p)))))
     (validate (Some (ajv_validators sample_engine)) (JObj []) (Some ''config'')) =
   Inr (False, [''root''])
   \<and> map_sum id (\<lambda>p. (vr_valid (fst p),
                     map e_path (filter (\<lambda>e. e_severity e = ''critical'') (vr_errors (fst p)))))
     (validate (Some (ajv_validators role_engine))
        (JObj [(''agents'', JObj [(''a'', JObj [])])]) (Some ''config'')) =
   Inr (False, [''root'', ''/agents/a''])"
  by (simp add: backend_defs reporting_def role_engine_def is_agent_name_def)

theorem missing_version_reported_witness:
  "map_of ([] :: (string \<times> json) list) ''version'' = None
   \<and> configValidate (ajv_validators sample_engine) (JObj []) =
       ([missing_property ''version'' (Some (JObj []))], JObj [])
   \<and> keyword (missing_property ''version'' (Some (JObj []))) = ''required''
   \<and> instancePath (missing_property ''version'' (Some (JObj []))) = Some []
   \<and> missingProperty (missing_property ''version'' (Some (JObj []))) = Some ''version''
   \<and> map_sum id (\<lambda>p. map e_path (vr_errors (fst p))) (validate None (JObj []) (Some ''config'')) =
       Inr [''version'']
   \<and> (\<exists>r. validate (Some (ajv_validators sample_engine)) (JObj []) (Some ''config'') = Inr (r, JObj []) \<and>
          \<not> vr_valid r \<and> e_path (parseAJVError (missing_property ''version'' (Some (JObj [])))) = ''root'')"
  using missing_version_reported [of "[]"]
  by (simp add: backend_defs)

subsection \<open>validateOrThrow\<close>




subsection \<open>Unknown top-level fields\<close>

lemma map_of_set_prop: "n \<noteq> k \<Longrightarrow> map_of (set_prop k x fs) n = map_of fs n"
  by (induction fs) auto

lemma applicable_undeclared: "\<not> declares eng S k \<Longrightarrow> applicable eng S k = []"
  by (auto simp: declares_def applicable_def filter_empty_conv list_ex_iff)

lemma check_entry_undeclared:
  "\<not> declares eng S (fst kv) \<Longrightarrow> check_entry eng S kv = ([], kv)"
  by (simp add: check_entry_def applicable_undeclared)

lemma entries_set_prop:
  "\<not> declares eng S k \<Longrightarrow>
   concat (map (\<lambda>kv. fst (check_entry eng S kv)) (set_prop k x fs)) =
   concat (map (\<lambda>kv. fst (check_entry eng S kv)) fs)"
  by (induction fs) (auto simp: check_entry_undeclared)

lemma required_set_prop:
  assumes "set (t_required S) \<subseteq> set (map fst (t_properties S))" and "\<not> declares eng S k"
  shows "filter (\<lambda>name. map_of (set_prop k x fs) name = None) (t_required S) =
         filter (\<lambda>name. map_of fs name = None) (t_required S)"
proof (rule filter_cong [OF refl])
  fix name assume "name \<in> set (t_required S)"
  with assms have "name \<noteq> k" by (auto simp: declares_def)
  then show "(map_of (set_prop k x fs) name = None) = (map_of fs name = None)"
    by (simp add: map_of_set_prop)
qed

lemma compile_set_prop:
  assumes "t_additionalProperties S"
    and "set (t_required S) \<subseteq> set (map fst (t_properties S))"
    and "\<not> declares eng S k"
    and "fst (ajv_compile eng S (JObj fs)) = []"
  shows "fst (ajv_compile eng S (JObj (set_prop k x fs))) = []"
  using assms(1,4) entries_set_prop [OF assms(3), of x fs] required_set_prop [OF assms(2,3), of x fs]
  by (simp add: ajv_compile_def)

lemma validate_own:
  "getValidator vs S = Own c \<Longrightarrow>
   validate (Some vs) D (Some S) =
     Inr (if fst (c D) = [] then \<lparr> vr_valid = True, vr_errors = [], vr_warnings = [], vr_fixes = [] \<rparr>
          else process_errors (fst (c D)), snd (c D))"
  by (simp add: validate_def split: prod.splits)

lemma valid_own:
  "getValidator vs S = Own c \<Longrightarrow> validate (Some vs) D (Some S) = Inr (r, d) \<Longrightarrow>
   vr_valid r = (fst (c D) = [])"
  by (auto simp: validate_own process_errors_def Let_def split: if_splits)

lemma basic_reads_version:
  "js_get (JObj a) ''version'' = js_get (JObj b) ''version'' \<Longrightarrow>
   basicValidate (JObj a) S = basicValidate (JObj b) S"
  by (simp add: basicValidate_def js_truthy_def js_typeof_def)

lemma basic_set_prop:
  assumes "S = ''config'' \<Longrightarrow> k \<noteq> ''version''"
    and "vr_valid (basicValidate (JObj fs) S)"
  shows "vr_valid (basicValidate (JObj (set_prop k x fs)) S)"
proof (cases "S = ''config''")
  case True
  with assms(1) have "js_get (JObj (set_prop k x fs)) ''version'' = js_get (JObj fs) ''version''"
    by (simp add: map_of_set_prop js_get_def)
  then have "basicValidate (JObj (set_prop k x fs)) S = basicValidate (JObj fs) S"
    by (rule basic_reads_version)
  with assms(2) show ?thesis by simp
next
  case False
  then show ?thesis
    by (simp add: basicValidate_def js_truthy_def js_typeof_def)
qed

lemma getSchema_cases:
  "getSchema S = Some T \<Longrightarrow>
   (S = ''config'' \<and> T = CONFIG_SCHEMA) \<or> (S = ''settings'' \<and> T = SETTINGS_SCHEMA) \<or>
   (S = ''quality-gate'' \<and> T = QUALITY_GATE_SCHEMA)"
  by (simp add: getSchema_def split: if_splits)

lemma schema_facts:
  assumes "getSchema S = Some T"
  shows "t_additionalProperties T \<and> set (t_required T) \<subseteq> set (map fst (t_properties T)) \<and>
   getValidator (ajv_validators eng) S = Own (ajv_compile eng T)"
proof -
  from getSchema_cases [OF assms] consider
    "S = ''config''" "T = CONFIG_SCHEMA" | "S = ''settings''" "T = SETTINGS_SCHEMA" |
    "S = ''quality-gate''" "T = QUALITY_GATE_SCHEMA" by blast
  then show ?thesis
  proof cases
    case 1
    then show ?thesis by (simp add: getValidator_def ajv_validators_def CONFIG_SCHEMA_def)
  next
    case 2
    then show ?thesis by (simp add: getValidator_def ajv_validators_def SETTINGS_SCHEMA_def)
  next
    case 3
    then show ?thesis by (simp add: getValidator_def ajv_validators_def QUALITY_GATE_SCHEMA_def)
  qed
qed

lemma config_declares_version: "declares eng CONFIG_SCHEMA ''version''"
  by (simp add: declares_def CONFIG_SCHEMA_def)

text \<open>
  Claim C8. For each of the three schemas, without the backend and with it: when a
  document is valid, the document with one more top-level field, of a name the schema
  does not declare, is valid too.
\<close>

theorem unknown_top_level_field_tolerated:
  assumes schema: "getSchema S = Some T"
    and backend: "ajv = None \<or> ajv = Some (ajv_validators eng)"
    and valid: "validate ajv (JObj fs) (Some S) = Inr (r, d)" "vr_valid r"
    and unknown: "\<not> declares eng T k"
  shows "\<exists>r' d'. validate ajv (JObj (set_prop k x fs)) (Some S) = Inr (r', d') \<and> vr_valid r'"
proof (cases ajv)
  case None
  have "S = ''config'' \<Longrightarrow> k \<noteq> ''version''"
  proof
    assume "S = ''config''" and "k = ''version''"
    with schema have "T = CONFIG_SCHEMA" by (simp add: getSchema_def)
    with unknown \<open>k = ''version''\<close> show False by (simp add: config_declares_version)
  qed
  moreover from None valid have "vr_valid (basicValidate (JObj fs) S)"
    by (auto simp: validate_def)
  ultimately have "vr_valid (basicValidate (JObj (set_prop k x fs)) S)"
    by (rule basic_set_prop)
  with None show ?thesis by (simp add: validate_def)
next
  case (Some vs)
  with backend have vs: "vs = ajv_validators eng" by simp
  note facts = schema_facts [OF schema, of eng]
  from facts have own: "getValidator vs S = Own (ajv_compile eng T)" by (simp add: vs)
  from valid Some have "fst (ajv_compile eng T (JObj fs)) = []"
    using valid_own [OF own] by simp
  with facts unknown have "fst (ajv_compile eng T (JObj (set_prop k x fs))) = []"
    by (simp add: compile_set_prop)
  with Some show ?thesis by (simp add: validate_own [OF own])
qed

theorem unknown_top_level_field_tolerated_witness:
  "getSchema ''config'' = Some CONFIG_SCHEMA
   \<and> validate (Some (ajv_validators sample_engine)) (JObj [(''version'', JStr ''1.0.7'')]) (Some ''config'') =
       Inr (\<lparr> vr_valid = True, vr_errors = [], vr_warnings = [], vr_fixes = [] \<rparr>,
            JObj [(''version'', JStr ''1.0.7'')])
   \<and> \<not> declares sample_engine CONFIG_SCHEMA ''extraProperty''
   \<and> (\<exists>r' d'. validate (Some (ajv_validators sample_engine))
          (JObj (set_prop ''extraProperty'' (JStr ''should not error'') [(''version'', JStr ''1.0.7'')]))
          (Some ''config'') = Inr (r', d') \<and> vr_valid r')"
  using unknown_top_level_field_tolerated [of "''config''" CONFIG_SCHEMA
      "Some (ajv_validators sample_engine)" sample_engine "[(''version'', JStr ''1.0.7'')]"
      "\<lparr> vr_valid = True, vr_errors = [], vr_warnings = [], vr_fixes = [] \<rparr>"
      "JObj [(''version'', JStr ''1.0.7'')]" "''extraProperty''" "JStr ''should not error''"]
  by (simp add: getSchema_def declares_def backend_defs)

end
